theory Spec2Isabelle
  imports Main
begin

section \<open>ChessBet: the escrow contract and the matching engine\<close>

text \<open>
  A shallow embedding of \<^verbatim>\<open>contracts/ChessBet.sol\<close> (Solidity 0.8.20) and of the
  \<^verbatim>\<open>OrderbookManager\<close> class of \<^verbatim>\<open>src/lib/chess/ChessEngine.ts\<close>.

  Conventions of the embedding.
  \<^item> \<^verbatim>\<open>uint256\<close>, \<^verbatim>\<open>uint8\<close>, \<^verbatim>\<open>address\<close> and \<^verbatim>\<open>bytes32\<close> values are natural numbers.
    Solidity 0.8 arithmetic is checked: an overflowing \<^verbatim>\<open>+\<close> or \<^verbatim>\<open>*\<close> and an underflowing
    \<^verbatim>\<open>-\<close> abort the call with a panic. The model writes the check out.
  \<^item> A call either returns the new state (\<open>Inr\<close>) or reverts (\<open>Inl\<close>); a reverted call
    leaves the storage as it was, which \<open>transact\<close> makes explicit.
  \<^item> A \<^verbatim>\<open>mapping\<close> is a total function (absent keys read as the zero value).
  \<^item> \<^verbatim>\<open>keccak256(abi.encodePacked(...))\<close> is a parameter \<open>H\<close> of the functions that use it,
    applied to the list of the packed fields; every theorem holds for every \<open>H\<close>.
  \<^item> The ERC-20 token is an external collaborator: a parameter with two operations that
    may fail. Each operation is handed the contract storage as it is at the moment of
    the call, which is what a callee could observe.
  \<^item> Emitted events are appended to a log kept in the state.
\<close>

subsection \<open>Values, errors, checked arithmetic\<close>

type_synonym address = nat
type_synonym bytes32 = nat

datatype error =
    Require string
  | Panic
  | TransferFailed
  | EnforcedPause
  | ExpectedPause
  | OwnableUnauthorizedAccount

definition UINT256_MAX :: nat where
  "UINT256_MAX = 2 ^ 256 - 1"

definition checked_add :: "nat \<Rightarrow> nat \<Rightarrow> error + nat" where
  "checked_add x y = (if x + y \<le> UINT256_MAX then Inr (x + y) else Inl Panic)"

definition checked_sub :: "nat \<Rightarrow> nat \<Rightarrow> error + nat" where
  "checked_sub x y = (if y \<le> x then Inr (x - y) else Inl Panic)"

definition checked_mul :: "nat \<Rightarrow> nat \<Rightarrow> error + nat" where
  "checked_mul x y = (if x * y \<le> UINT256_MAX then Inr (x * y) else Inl Panic)"

definition bnd :: "error + 'a \<Rightarrow> ('a \<Rightarrow> error + 'b) \<Rightarrow> error + 'b" where
  "bnd m f = (case m of Inl e \<Rightarrow> Inl e | Inr v \<Rightarrow> f v)"

definition require :: "bool \<Rightarrow> string \<Rightarrow> (error + 'a) \<Rightarrow> error + 'a" where
  "require c msg k = (if c then k else Inl (Require msg))"

definition TOKEN_DECIMALS :: nat where "TOKEN_DECIMALS = 6"
definition USDC_UNIT :: nat where "USDC_UNIT = 10 ^ TOKEN_DECIMALS"
definition MAX_MOVES :: nat where "MAX_MOVES = 200"
definition MAX_MOVE_BYTES :: nat where "MAX_MOVE_BYTES = 16"
definition RESULT_WHITE :: nat where "RESULT_WHITE = 0"
definition RESULT_BLACK :: nat where "RESULT_BLACK = 1"
definition RESULT_DRAW :: nat where "RESULT_DRAW = 2"

text \<open>
  \<^verbatim>\<open>tickSize\<close> and \<^verbatim>\<open>tolerancePercentage\<close> are storage variables initialised at their
  declaration and written by no function of the contract.
\<close>

definition tickSize :: nat where "tickSize = 10 * USDC_UNIT"
definition tolerancePercentage :: nat where "tolerancePercentage = 5"

subsection \<open>Structs\<close>

record Game =
  g_id :: bytes32
  whitePlayer :: address
  blackPlayer :: address
  fen :: string
  pgn :: string
  g_status :: nat
  g_result :: nat
  bettingTier :: nat
  g_timeControl :: nat
  g_createdAt :: nat
  startedAt :: nat
  finishedAt :: nat
  moveCount :: nat

record GameBet =
  b_gameId :: bytes32
  b_player :: address
  b_amount :: nat
  b_status :: nat
  b_createdAt :: nat
  b_resolvedAt :: nat
  b_payout :: nat

record BettingPool =
  p_gameId :: bytes32
  p_totalAmount :: nat
  p_houseFee :: nat
  resolved :: bool
  winner :: address

record Order =
  o_id :: bytes32
  o_player :: address
  o_side :: nat
  o_amount :: nat
  o_tickAmount :: nat
  o_timeControl :: nat
  o_createdAt :: nat
  o_filledAmount :: nat
  o_status :: nat

record OrderbookLevel =
  l_tickAmount :: nat
  orderIds :: "bytes32 list"
  l_totalAmount :: nat

datatype event =
    GameCreated bytes32 address address nat
  | GameStarted bytes32
  | MoveMade bytes32 string
  | GameFinished bytes32 nat
  | GameResolved bytes32 address nat
  | BetPlaced bytes32 address nat
  | BetResolved bytes32 address nat nat nat
  | PayoutClaimed address nat
  | HouseFeePercentageUpdated nat
  | BettingTierAmountsUpdated nat nat

text \<open>
  The storage of the contract. \<open>orderbookLevels\<close> is keyed by
  (timeControl, side, tickAmount); \<open>owner\<close> and \<open>paused\<close> are the fields of the
  inherited \<^verbatim>\<open>Ownable\<close> and \<^verbatim>\<open>Pausable\<close>.
\<close>

record contract =
  games :: "bytes32 \<Rightarrow> Game"
  bettingPools :: "bytes32 \<Rightarrow> BettingPool"
  gameBets :: "bytes32 \<Rightarrow> GameBet list"
  pendingPayouts :: "address \<Rightarrow> nat"
  houseFeePercentage :: nat
  lowTierAmount :: nat
  mediumTierAmount :: nat
  orders :: "bytes32 \<Rightarrow> Order"
  orderbookLevels :: "nat \<times> nat \<times> nat \<Rightarrow> OrderbookLevel"
  playerOrders :: "address \<Rightarrow> bytes32 list"
  resultSubmitted :: "bytes32 \<Rightarrow> address \<Rightarrow> bool"
  resultValue :: "bytes32 \<Rightarrow> address \<Rightarrow> nat"
  resultResolved :: "bytes32 \<Rightarrow> bool"
  resultFinal :: "bytes32 \<Rightarrow> nat"
  playerGameIndex :: "address \<Rightarrow> bytes32 list"
  playerSeenGame :: "address \<Rightarrow> bytes32 \<Rightarrow> bool"
  tokenFeeBalance :: nat
  owner :: address
  paused :: bool
  events :: "event list"

record env =
  msg_sender :: address
  block_timestamp :: nat
  block_number :: nat

record 't token =
  safeTransfer :: "contract \<Rightarrow> address \<Rightarrow> nat \<Rightarrow> 't \<Rightarrow> 't option"
  safeTransferFrom :: "contract \<Rightarrow> address \<Rightarrow> nat \<Rightarrow> 't \<Rightarrow> 't option"

definition emit :: "event \<Rightarrow> contract \<Rightarrow> contract" where
  "emit e s = s\<lparr>events := events s @ [e]\<rparr>"

text \<open>
  The outcome of a transaction on the world (storage and token): a reverted call leaves
  the world as it was and reports the error.
\<close>

definition transact :: "('w \<Rightarrow> error + 'w) \<Rightarrow> 'w \<Rightarrow> 'w \<times> error option" where
  "transact f w = (case f w of Inl e \<Rightarrow> (w, Some e) | Inr w' \<Rightarrow> (w', None))"

definition initialFen :: string where
  "initialFen = ''rnbqkbnr/pppppppp/8/8/8/8/PPPPPPPP/RNBQKBNR w KQkq - 0 1''"

definition zeroGame :: Game where
  "zeroGame = \<lparr>g_id = 0, whitePlayer = 0, blackPlayer = 0, fen = [], pgn = [],
     g_status = 0, g_result = 0, bettingTier = 0, g_timeControl = 0, g_createdAt = 0,
     startedAt = 0, finishedAt = 0, moveCount = 0\<rparr>"

definition zeroPool :: BettingPool where
  "zeroPool = \<lparr>p_gameId = 0, p_totalAmount = 0, p_houseFee = 0, resolved = False, winner = 0\<rparr>"

definition zeroOrder :: Order where
  "zeroOrder = \<lparr>o_id = 0, o_player = 0, o_side = 0, o_amount = 0, o_tickAmount = 0,
     o_timeControl = 0, o_createdAt = 0, o_filledAmount = 0, o_status = 0\<rparr>"

definition zeroLevel :: OrderbookLevel where
  "zeroLevel = \<lparr>l_tickAmount = 0, orderIds = [], l_totalAmount = 0\<rparr>"

text \<open>The storage after the constructor, deployed by \<open>deployer\<close>.\<close>

definition constructed :: "address \<Rightarrow> contract" where
  "constructed deployer =
     \<lparr>games = (\<lambda>_. zeroGame), bettingPools = (\<lambda>_. zeroPool), gameBets = (\<lambda>_. []),
      pendingPayouts = (\<lambda>_. 0), houseFeePercentage = 500,
      lowTierAmount = 5 * USDC_UNIT, mediumTierAmount = 50 * USDC_UNIT,
      orders = (\<lambda>_. zeroOrder), orderbookLevels = (\<lambda>_. zeroLevel),
      playerOrders = (\<lambda>_. []), resultSubmitted = (\<lambda>_ _. False),
      resultValue = (\<lambda>_ _. 0), resultResolved = (\<lambda>_. False), resultFinal = (\<lambda>_. 0),
      playerGameIndex = (\<lambda>_. []), playerSeenGame = (\<lambda>_ _. False),
      tokenFeeBalance = 0, owner = deployer, paused = False, events = []\<rparr>"

subsection \<open>Storage access\<close>

definition upd_game :: "bytes32 \<Rightarrow> (Game \<Rightarrow> Game) \<Rightarrow> contract \<Rightarrow> contract" where
  "upd_game gid f s = s\<lparr>games := (games s)(gid := f (games s gid))\<rparr>"

definition upd_pool :: "bytes32 \<Rightarrow> (BettingPool \<Rightarrow> BettingPool) \<Rightarrow> contract \<Rightarrow> contract" where
  "upd_pool gid f s = s\<lparr>bettingPools := (bettingPools s)(gid := f (bettingPools s gid))\<rparr>"

definition upd_bet :: "bytes32 \<Rightarrow> nat \<Rightarrow> (GameBet \<Rightarrow> GameBet) \<Rightarrow> contract \<Rightarrow> contract" where
  "upd_bet gid i f s =
     s\<lparr>gameBets := (gameBets s)(gid := (gameBets s gid)[i := f (gameBets s gid ! i)])\<rparr>"

definition upd_order :: "bytes32 \<Rightarrow> (Order \<Rightarrow> Order) \<Rightarrow> contract \<Rightarrow> contract" where
  "upd_order oid f s = s\<lparr>orders := (orders s)(oid := f (orders s oid))\<rparr>"

definition upd_level ::
  "nat \<times> nat \<times> nat \<Rightarrow> (OrderbookLevel \<Rightarrow> OrderbookLevel) \<Rightarrow> contract \<Rightarrow> contract" where
  "upd_level k f s = s\<lparr>orderbookLevels := (orderbookLevels s)(k := f (orderbookLevels s k))\<rparr>"

definition credit :: "address \<Rightarrow> nat \<Rightarrow> contract \<Rightarrow> error + contract" where
  \<comment> \<open>\<^verbatim>\<open>pendingPayouts[a] += amount\<close>\<close>
  "credit a amount s =
     bnd (checked_add (pendingPayouts s a) amount)
       (\<lambda>v. Inr (s\<lparr>pendingPayouts := (pendingPayouts s)(a := v)\<rparr>))"

subsection \<open>Game management\<close>

definition newGame :: "bytes32 \<Rightarrow> address \<Rightarrow> address \<Rightarrow> nat \<Rightarrow> nat \<Rightarrow> nat \<Rightarrow> Game" where
  "newGame gid white black tier tc now =
     \<lparr>g_id = gid, whitePlayer = white, blackPlayer = black, fen = initialFen, pgn = [],
      g_status = 0, g_result = 0, bettingTier = tier, g_timeControl = tc, g_createdAt = now,
      startedAt = 0, finishedAt = 0, moveCount = 0\<rparr>"

definition newPool :: "bytes32 \<Rightarrow> BettingPool" where
  "newPool gid = \<lparr>p_gameId = gid, p_totalAmount = 0, p_houseFee = 0, resolved = False, winner = 0\<rparr>"

definition createGame ::
  "(nat list \<Rightarrow> bytes32) \<Rightarrow> env \<Rightarrow> contract \<Rightarrow> address \<Rightarrow> nat \<Rightarrow> nat \<Rightarrow> error + contract \<times> bytes32" where
  "createGame H e s black timeControl tier =
     (if paused s then Inl EnforcedPause else
      require (black \<noteq> 0) ''Invalid black player'' (
      require (black \<noteq> msg_sender e) ''Cannot play against yourself'' (
      require (tier \<le> 2) ''Invalid betting tier'' (
        let gameId = H [msg_sender e, black, block_timestamp e, block_number e];
            s1 = s\<lparr>games := (games s)(gameId :=
                   newGame gameId (msg_sender e) black tier timeControl (block_timestamp e))\<rparr>;
            s2 = s1\<lparr>bettingPools := (bettingPools s1)(gameId := newPool gameId)\<rparr>
        in Inr (emit (GameCreated gameId (msg_sender e) black timeControl) s2, gameId)))))"

definition gameExists :: "contract \<Rightarrow> bytes32 \<Rightarrow> (error + 'a) \<Rightarrow> error + 'a" where
  "gameExists s gameId k = require (g_id (games s gameId) \<noteq> 0) ''Game does not exist'' k"

definition onlyGamePlayer :: "env \<Rightarrow> contract \<Rightarrow> bytes32 \<Rightarrow> (error + 'a) \<Rightarrow> error + 'a" where
  "onlyGamePlayer e s gameId k =
     require (msg_sender e = whitePlayer (games s gameId) \<or> msg_sender e = blackPlayer (games s gameId))
       ''Not a game player'' k"

definition gameNotFinished :: "contract \<Rightarrow> bytes32 \<Rightarrow> (error + 'a) \<Rightarrow> error + 'a" where
  "gameNotFinished s gameId k = require (g_status (games s gameId) \<noteq> 2) ''Game already finished'' k"

definition onlyOwner :: "env \<Rightarrow> contract \<Rightarrow> (error + 'a) \<Rightarrow> error + 'a" where
  "onlyOwner e s k = (if msg_sender e = owner s then k else Inl OwnableUnauthorizedAccount)"

definition startGame :: "env \<Rightarrow> contract \<Rightarrow> bytes32 \<Rightarrow> error + contract" where
  "startGame e s gameId =
     gameExists s gameId (onlyGamePlayer e s gameId (
     require (g_status (games s gameId) = 0) ''Game not in waiting status'' (
       Inr (emit (GameStarted gameId)
              (upd_game gameId (\<lambda>g. g\<lparr>g_status := 1, startedAt := block_timestamp e\<rparr>) s)))))"

definition makeMove :: "env \<Rightarrow> contract \<Rightarrow> bytes32 \<Rightarrow> string \<Rightarrow> error + contract" where
  "makeMove e s gameId move =
     gameExists s gameId (onlyGamePlayer e s gameId (
     require (g_status (games s gameId) = 1) ''Game not active'' (
     require (length move \<le> MAX_MOVE_BYTES) ''move too long'' (
       let s1 = emit (MoveMade gameId move) s in
       if moveCount (games s1 gameId) < MAX_MOVES then
         Inr (upd_game gameId (\<lambda>g. g\<lparr>moveCount := moveCount g + 1\<rparr>)
               (if length (pgn (games s1 gameId)) > 0
                then upd_game gameId (\<lambda>g. g\<lparr>pgn := pgn g @ '' '' @ move\<rparr>) s1
                else upd_game gameId (\<lambda>g. g\<lparr>pgn := move\<rparr>) s1))
       else Inr s1))))"

subsection \<open>Resolution of the betting pool\<close>

definition creditFee :: "nat \<Rightarrow> contract \<Rightarrow> error + contract" where
  "creditFee amount s =
     bnd (checked_add (tokenFeeBalance s) amount) (\<lambda>v. Inr (s\<lparr>tokenFeeBalance := v\<rparr>))"

text \<open>The body of the draw loop of \<^verbatim>\<open>_resolveBets\<close>, run for the indices in order.\<close>

fun refundBets :: "env \<Rightarrow> bytes32 \<Rightarrow> nat list \<Rightarrow> contract \<Rightarrow> error + contract" where
  "refundBets e gameId [] s = Inr s"
| "refundBets e gameId (i # is) s =
     (let s1 = upd_bet gameId i (\<lambda>b. b\<lparr>b_status := 3\<rparr>) s;
          s2 = upd_bet gameId i (\<lambda>b. b\<lparr>b_payout := b_amount b\<rparr>) s1;
          s3 = upd_bet gameId i (\<lambda>b. b\<lparr>b_resolvedAt := block_timestamp e\<rparr>) s2;
          b = gameBets s3 gameId ! i
      in bnd (credit (b_player b) (b_amount b) s3)
           (\<lambda>s4. refundBets e gameId is
                    (emit (BetResolved gameId (b_player b) (b_amount b) (b_amount b) 2) s4)))"

text \<open>The body of the winner-takes-all loop of \<^verbatim>\<open>_resolveBets\<close>.\<close>

fun payWinner :: "env \<Rightarrow> bytes32 \<Rightarrow> address \<Rightarrow> nat \<Rightarrow> nat list \<Rightarrow> contract \<Rightarrow> error + contract" where
  "payWinner e gameId w netPool [] s = Inr s"
| "payWinner e gameId w netPool (i # is) s =
     (if b_player (gameBets s gameId ! i) = w then
        (let s1 = upd_bet gameId i
                    (\<lambda>b. b\<lparr>b_status := 0, b_payout := netPool,
                            b_resolvedAt := block_timestamp e\<rparr>) s;
             b = gameBets s1 gameId ! i
         in bnd (credit (b_player b) netPool s1)
              (\<lambda>s2. payWinner e gameId w netPool is
                       (emit (BetResolved gameId (b_player b) (b_amount b) netPool 0) s2)))
      else
        (let s1 = upd_bet gameId i
                    (\<lambda>b. b\<lparr>b_status := 1, b_payout := 0,
                            b_resolvedAt := block_timestamp e\<rparr>) s;
             b = gameBets s1 gameId ! i
         in payWinner e gameId w netPool is
              (emit (BetResolved gameId (b_player b) (b_amount b) 0 1) s1)))"

definition resolveBets :: "env \<Rightarrow> contract \<Rightarrow> bytes32 \<Rightarrow> nat \<Rightarrow> error + contract" where
  "resolveBets e s gameId result =
     require (\<not> resolved (bettingPools s gameId)) ''Bets already resolved'' (
       let s1 = upd_pool gameId (\<lambda>p. p\<lparr>resolved := True\<rparr>) s in
       require (length (gameBets s1 gameId) = 2) ''Must have exactly 2 bets'' (
         if result = RESULT_DRAW then
           bnd (refundBets e gameId [0 ..< length (gameBets s1 gameId)] s1)
             (\<lambda>s2. Inr (emit (GameResolved gameId 0 result)
                          (upd_pool gameId (\<lambda>p. p\<lparr>winner := 0, p_houseFee := 0\<rparr>) s2)))
         else
           (let w = (if result = RESULT_WHITE then whitePlayer (games s1 gameId)
                     else blackPlayer (games s1 gameId));
                s2 = emit (GameResolved gameId w result)
                       (upd_pool gameId (\<lambda>p. p\<lparr>winner := w\<rparr>) s1)
            in bnd (creditFee (p_houseFee (bettingPools s2 gameId)) s2)
                 (\<lambda>s3. bnd (checked_sub (p_totalAmount (bettingPools s3 gameId))
                                          (p_houseFee (bettingPools s3 gameId)))
                   (\<lambda>netPool. payWinner e gameId w netPool
                                 [0 ..< length (gameBets s3 gameId)] s3)))))"

definition finishGame :: "env \<Rightarrow> bytes32 \<Rightarrow> nat \<Rightarrow> contract \<Rightarrow> contract" where
  \<comment> \<open>The five assignments shared by \<^verbatim>\<open>submitGameResult\<close> and \<^verbatim>\<open>resolveDisputedGame\<close>.\<close>
  "finishGame e gameId result s =
     upd_game gameId
       (\<lambda>g. g\<lparr>g_status := 2, g_result := result, finishedAt := block_timestamp e\<rparr>)
       (s\<lparr>resultResolved := (resultResolved s)(gameId := True),
          resultFinal := (resultFinal s)(gameId := result)\<rparr>)"

definition submitGameResult :: "env \<Rightarrow> contract \<Rightarrow> bytes32 \<Rightarrow> nat \<Rightarrow> error + contract" where
  "submitGameResult e s gameId result =
     gameExists s gameId (onlyGamePlayer e s gameId (
     require (result \<le> 2) ''Invalid result'' (
     require (g_status (games s gameId) = 1) ''Game not active'' (
     require (\<not> resultResolved s gameId) ''Game already resolved'' (
       let s1 = s\<lparr>resultSubmitted := (resultSubmitted s)
                     (gameId := (resultSubmitted s gameId)(msg_sender e := True))\<rparr>;
           s2 = s1\<lparr>resultValue := (resultValue s1)
                     (gameId := (resultValue s1 gameId)(msg_sender e := result))\<rparr>;
           otherPlayer = (if msg_sender e = whitePlayer (games s2 gameId)
                          then blackPlayer (games s2 gameId) else whitePlayer (games s2 gameId));
           otherSubmitted = resultSubmitted s2 gameId otherPlayer;
           otherResult = resultValue s2 gameId otherPlayer
       in if otherSubmitted \<and> otherResult = result then
            bnd (resolveBets e (finishGame e gameId result s2) gameId result)
              (\<lambda>s3. Inr (emit (GameFinished gameId result) s3))
          else Inr s2)))))"

definition resolveDisputedGame :: "env \<Rightarrow> contract \<Rightarrow> bytes32 \<Rightarrow> nat \<Rightarrow> error + contract" where
  "resolveDisputedGame e s gameId result =
     onlyOwner e s (gameExists s gameId (
     require (result \<le> 2) ''Invalid result'' (
     require (\<not> resultResolved s gameId) ''Game already resolved'' (
     require (g_status (games s gameId) = 1) ''Game not active'' (
     require (resultSubmitted s gameId (whitePlayer (games s gameId)) \<and>
              resultSubmitted s gameId (blackPlayer (games s gameId)))
       ''Both players must submit results first'' (
       bnd (resolveBets e (finishGame e gameId result s) gameId result)
         (\<lambda>s1. Inr (emit (GameFinished gameId result) s1))))))))"

subsection \<open>Betting\<close>

definition isValidBetAmount :: "contract \<Rightarrow> nat \<Rightarrow> nat \<Rightarrow> bool" where
  "isValidBetAmount s tier amount =
     (if tier = 0 then amount = lowTierAmount s
      else if tier = 1 then amount = mediumTierAmount s
      else if tier = 2 then amount \<ge> 1 * USDC_UNIT
      else False)"

definition indexPlayerGame :: "address \<Rightarrow> bytes32 \<Rightarrow> contract \<Rightarrow> contract" where
  "indexPlayerGame player gameId s =
     (if \<not> playerSeenGame s player gameId then
        (let s1 = s\<lparr>playerSeenGame := (playerSeenGame s)
                      (player := (playerSeenGame s player)(gameId := True))\<rparr>
         in s1\<lparr>playerGameIndex := (playerGameIndex s1)
                  (player := playerGameIndex s1 player @ [gameId])\<rparr>)
      else s)"

definition newBet :: "bytes32 \<Rightarrow> address \<Rightarrow> nat \<Rightarrow> nat \<Rightarrow> GameBet" where
  "newBet gameId player amount now =
     \<lparr>b_gameId = gameId, b_player = player, b_amount = amount, b_status = 0,
      b_createdAt = now, b_resolvedAt = 0, b_payout = 0\<rparr>"

definition addToPool :: "bytes32 \<Rightarrow> nat \<Rightarrow> contract \<Rightarrow> error + contract" where
  \<comment> \<open>\<^verbatim>\<open>pool.totalAmount += amount; pool.houseFee = (pool.totalAmount * houseFeePercentage) / 10000\<close>\<close>
  "addToPool gameId amount s =
     bnd (checked_add (p_totalAmount (bettingPools s gameId)) amount) (\<lambda>total.
       let s1 = upd_pool gameId (\<lambda>p. p\<lparr>p_totalAmount := total\<rparr>) s in
       bnd (checked_mul (p_totalAmount (bettingPools s1 gameId)) (houseFeePercentage s1)) (\<lambda>m.
         Inr (upd_pool gameId (\<lambda>p. p\<lparr>p_houseFee := m div 10000\<rparr>) s1)))"

definition placeBet ::
  "'t token \<Rightarrow> env \<Rightarrow> bytes32 \<Rightarrow> nat \<Rightarrow> contract \<times> 't \<Rightarrow> error + contract \<times> 't" where
  "placeBet tok e gameId amount w =
     (case w of (s, t) \<Rightarrow>
      gameExists s gameId (gameNotFinished s gameId (
      if paused s then Inl EnforcedPause else
      require (g_status (games s gameId) = 0) ''Game already started or finished'' (
      require (msg_sender e = whitePlayer (games s gameId) \<or>
               msg_sender e = blackPlayer (games s gameId)) ''Only game players can bet'' (
      require (isValidBetAmount s (bettingTier (games s gameId)) amount)
        ''Invalid bet amount for tier'' (
      require (list_all (\<lambda>b. b_player b \<noteq> msg_sender e) (gameBets s gameId))
        ''Player already bet'' (
      case safeTransferFrom tok s (msg_sender e) amount t of
        None \<Rightarrow> Inl TransferFailed
      | Some t' \<Rightarrow>
          (let s1 = s\<lparr>gameBets := (gameBets s)(gameId := gameBets s gameId @
                        [newBet gameId (msg_sender e) amount (block_timestamp e)])\<rparr>;
               s2 = indexPlayerGame (msg_sender e) gameId s1
           in bnd (addToPool gameId amount s2) (\<lambda>s3.
                let s4 = emit (BetPlaced gameId (msg_sender e) amount) s3 in
                if length (gameBets s4 gameId) = 2 then
                  Inr (emit (GameStarted gameId)
                        (upd_game gameId
                           (\<lambda>g. g\<lparr>g_status := 1, startedAt := block_timestamp e\<rparr>) s4), t')
                else Inr (s4, t'))))))))))"

definition claimPayout :: "'t token \<Rightarrow> env \<Rightarrow> contract \<times> 't \<Rightarrow> error + contract \<times> 't" where
  "claimPayout tok e w =
     (case w of (s, t) \<Rightarrow>
      let amount = pendingPayouts s (msg_sender e) in
      require (amount > 0) ''No pending payout'' (
        let s1 = s\<lparr>pendingPayouts := (pendingPayouts s)(msg_sender e := 0)\<rparr> in
        case safeTransfer tok s1 (msg_sender e) amount t of
          None \<Rightarrow> Inl TransferFailed
        | Some t' \<Rightarrow> Inr (emit (PayoutClaimed (msg_sender e) amount) s1, t')))"

definition withdrawTokenFees :: "'t token \<Rightarrow> env \<Rightarrow> contract \<times> 't \<Rightarrow> error + contract \<times> 't" where
  "withdrawTokenFees tok e w =
     (case w of (s, t) \<Rightarrow>
      onlyOwner e s (
      require (tokenFeeBalance s > 0) ''No token fees to withdraw'' (
        let amount = tokenFeeBalance s;
            s1 = s\<lparr>tokenFeeBalance := 0\<rparr>
        in case safeTransfer tok s1 (owner s1) amount t of
             None \<Rightarrow> Inl TransferFailed
           | Some t' \<Rightarrow> Inr (s1, t'))))"

subsection \<open>Administration and emergency unwind\<close>

definition setHouseFeePercentage :: "env \<Rightarrow> contract \<Rightarrow> nat \<Rightarrow> error + contract" where
  "setHouseFeePercentage e s fee =
     onlyOwner e s (
     require (fee \<le> 1000) ''Fee too high'' (
     require (fee \<ge> 0) ''Fee cannot be negative'' (
       Inr (emit (HouseFeePercentageUpdated fee) (s\<lparr>houseFeePercentage := fee\<rparr>)))))"

definition setBettingTierAmounts :: "env \<Rightarrow> contract \<Rightarrow> nat \<Rightarrow> nat \<Rightarrow> error + contract" where
  "setBettingTierAmounts e s low medium =
     onlyOwner e s (
     require (low > 0) ''Low tier amount must be positive'' (
     require (medium > low) ''Medium tier must be higher than low tier'' (
     require (low \<ge> tickSize) ''Low tier must be at least tick size'' (
     require (medium \<ge> tickSize) ''Medium tier must be at least tick size'' (
       Inr (emit (BettingTierAmountsUpdated low medium)
              (s\<lparr>lowTierAmount := low, mediumTierAmount := medium\<rparr>)))))))"

definition pause :: "env \<Rightarrow> contract \<Rightarrow> error + contract" where
  "pause e s = onlyOwner e s (if paused s then Inl EnforcedPause else Inr (s\<lparr>paused := True\<rparr>))"

definition unpause :: "env \<Rightarrow> contract \<Rightarrow> error + contract" where
  "unpause e s = onlyOwner e s (if paused s then Inr (s\<lparr>paused := False\<rparr>) else Inl ExpectedPause)"

text \<open>The refund loop of \<^verbatim>\<open>pauseGame\<close> for a game that has not exactly two bets.\<close>

fun refundPending :: "env \<Rightarrow> bytes32 \<Rightarrow> nat list \<Rightarrow> contract \<Rightarrow> error + contract" where
  "refundPending e gameId [] s = Inr s"
| "refundPending e gameId (i # is) s =
     (if b_status (gameBets s gameId ! i) = 0 then
        (let s1 = upd_bet gameId i
                    (\<lambda>b. b\<lparr>b_status := 3, b_payout := b_amount b,
                            b_resolvedAt := block_timestamp e\<rparr>) s;
             b = gameBets s1 gameId ! i
         in bnd (credit (b_player b) (b_amount b) s1)
              (\<lambda>s2. refundPending e gameId is
                       (emit (BetResolved gameId (b_player b) (b_amount b) (b_amount b) RESULT_DRAW) s2)))
      else refundPending e gameId is s)"

definition pauseGame :: "env \<Rightarrow> contract \<Rightarrow> bytes32 \<Rightarrow> error + contract" where
  "pauseGame e s gameId =
     onlyOwner e s (gameExists s gameId (
     require (g_status (games s gameId) \<noteq> 2) ''Already finished'' (
       let s1 = upd_game gameId (\<lambda>g. g\<lparr>g_status := 2\<rparr>) s in
       bnd (if length (gameBets s1 gameId) = 2 then resolveBets e s1 gameId RESULT_DRAW
            else bnd (refundPending e gameId [0 ..< length (gameBets s1 gameId)] s1)
                   (\<lambda>s2. Inr (emit (GameResolved gameId 0 RESULT_DRAW)
                                (upd_pool gameId
                                   (\<lambda>p. p\<lparr>resolved := True, winner := 0, p_houseFee := 0\<rparr>) s2))))
         (\<lambda>s3. let s4 = upd_game gameId
                           (\<lambda>g. g\<lparr>g_result := RESULT_DRAW, finishedAt := block_timestamp e\<rparr>) s3;
                    s5 = s4\<lparr>resultResolved := (resultResolved s4)(gameId := True),
                            resultFinal := (resultFinal s4)(gameId := RESULT_DRAW)\<rparr>
                in Inr (emit (GameFinished gameId RESULT_DRAW) s5)))))"

subsection \<open>Orderbook: placing, matching, cancelling\<close>

definition quantizeAmount :: "nat \<Rightarrow> nat" where
  "quantizeAmount amount = (amount div tickSize) * tickSize"

definition recordBet :: "env \<Rightarrow> bytes32 \<Rightarrow> address \<Rightarrow> nat \<Rightarrow> contract \<Rightarrow> error + contract" where
  "recordBet e gameId player amount s =
     (let s1 = s\<lparr>gameBets := (gameBets s)(gameId := gameBets s gameId @
                   [newBet gameId player amount (block_timestamp e)])\<rparr>;
          s2 = indexPlayerGame player gameId s1
      in bnd (addToPool gameId amount s2)
           (\<lambda>s3. Inr (emit (BetPlaced gameId player amount) s3)))"

text \<open>
  \<^verbatim>\<open>_createMatch(whiteOrder, blackOrder, amount)\<close>: the two orders are storage
  references, here the keys of the orders in \<open>orders\<close>.
\<close>

definition createMatch ::
  "(nat list \<Rightarrow> bytes32) \<Rightarrow> env \<Rightarrow> bytes32 \<Rightarrow> bytes32 \<Rightarrow> nat \<Rightarrow> contract \<Rightarrow> error + contract" where
  "createMatch H e whiteOrder blackOrder amount s =
     require (amount > 0) ''zero match'' (
       let white = (if o_side (orders s whiteOrder) = 0 then o_player (orders s whiteOrder)
                    else o_player (orders s blackOrder));
           black = (if o_side (orders s whiteOrder) = 1 then o_player (orders s whiteOrder)
                    else o_player (orders s blackOrder));
           gameId = H [white, black, amount, block_timestamp e, block_number e];
           s1 = s\<lparr>games := (games s)(gameId :=
                  newGame gameId white black 2 (o_timeControl (orders s whiteOrder))
                    (block_timestamp e))\<rparr>;
           s2 = s1\<lparr>bettingPools := (bettingPools s1)(gameId := newPool gameId)\<rparr>
       in bnd (recordBet e gameId white amount s2) (\<lambda>s3.
          bnd (recordBet e gameId black amount s3) (\<lambda>s4.
            let s5 = upd_game gameId (\<lambda>g. g\<lparr>g_status := 1\<rparr>) s4;
                s6 = upd_game gameId (\<lambda>g. g\<lparr>startedAt := block_timestamp e\<rparr>) s5
            in Inr (emit (GameStarted gameId)
                     (emit (GameCreated gameId white black (o_timeControl (orders s6 whiteOrder)))
                        s6)))))"

definition swapPop :: "nat \<Rightarrow> 'a list \<Rightarrow> 'a list" where
  \<comment> \<open>\<^verbatim>\<open>xs[i] = xs[xs.length - 1]; xs.pop()\<close>, used on non-empty arrays only\<close>
  "swapPop i xs = butlast (xs[i := last xs])"

text \<open>
  One iteration of the \<^verbatim>\<open>while\<close> loop of \<^verbatim>\<open>_matchAtLevel\<close>, entered with
  \<open>remainingAmount > 0\<close> and a non-empty queue. The flag of the result says whether the
  loop goes on (\<open>False\<close> is the \<^verbatim>\<open>break\<close>).
\<close>

definition matchStep ::
  "(nat list \<Rightarrow> bytes32) \<Rightarrow> env \<Rightarrow> bytes32 \<Rightarrow> nat \<times> nat \<times> nat \<Rightarrow> contract \<Rightarrow> nat
     \<Rightarrow> error + contract \<times> nat \<times> bool" where
  "matchStep H e orderId k s remainingAmount =
     (let oppositeOrderId = orderIds (orderbookLevels s k) ! 0 in
      bnd (checked_sub (o_amount (orders s oppositeOrderId))
                       (o_filledAmount (orders s oppositeOrderId))) (\<lambda>oppositeRemaining.
        let matchAmount = (if remainingAmount < oppositeRemaining then remainingAmount
                           else oppositeRemaining) in
        if matchAmount = 0 then
          (if oppositeRemaining = 0 then
             Inr (upd_level k (\<lambda>l. l\<lparr>orderIds := swapPop 0 (orderIds l)\<rparr>)
                    (upd_order oppositeOrderId (\<lambda>r. r\<lparr>o_status := 2\<rparr>) s),
                  remainingAmount, True)
           else Inr (s, remainingAmount, False))
        else
          bnd (createMatch H e orderId oppositeOrderId matchAmount s) (\<lambda>s1.
          bnd (checked_add (o_filledAmount (orders s1 orderId)) matchAmount) (\<lambda>f1.
            let s2 = upd_order orderId (\<lambda>r. r\<lparr>o_filledAmount := f1\<rparr>) s1 in
          bnd (checked_add (o_filledAmount (orders s2 oppositeOrderId)) matchAmount) (\<lambda>f2.
            let s3 = upd_order oppositeOrderId (\<lambda>r. r\<lparr>o_filledAmount := f2\<rparr>) s2 in
          bnd (checked_sub remainingAmount matchAmount) (\<lambda>remaining'.
          bnd (checked_sub (l_totalAmount (orderbookLevels s3 k)) matchAmount) (\<lambda>total.
            let s4 = upd_level k (\<lambda>l. l\<lparr>l_totalAmount := total\<rparr>) s3 in
            if o_filledAmount (orders s4 oppositeOrderId) \<ge> o_amount (orders s4 oppositeOrderId)
            then Inr (upd_level k (\<lambda>l. l\<lparr>orderIds := swapPop 0 (orderIds l)\<rparr>)
                        (upd_order oppositeOrderId (\<lambda>r. r\<lparr>o_status := 2\<rparr>) s4),
                      remaining', True)
            else Inr (s4, remaining', True))))))))"

subsection \<open>Basic facts about the storage updates\<close>

lemma bnd_Inr [simp]: "bnd (Inr v) f = f v"
  by (simp add: bnd_def)

lemma bnd_Inl [simp]: "bnd (Inl err) f = Inl err"
  by (simp add: bnd_def)

lemma bnd_eq_Inr: "bnd m f = Inr r \<longleftrightarrow> (\<exists>v. m = Inr v \<and> f v = Inr r)"
  by (cases m) simp_all

lemma require_True [simp]: "require True msg k = k"
  by (simp add: require_def)

lemma require_False [simp]: "require False msg k = Inl (Require msg)"
  by (simp add: require_def)

lemma require_eq_Inr: "require c msg k = Inr r \<longleftrightarrow> c \<and> k = Inr r"
  by (cases c) simp_all

lemma checked_add_eq_Inr: "checked_add x y = Inr v \<longleftrightarrow> x + y \<le> UINT256_MAX \<and> v = x + y"
  by (auto simp add: checked_add_def)

lemma checked_sub_eq_Inr: "checked_sub x y = Inr v \<longleftrightarrow> y \<le> x \<and> v = x - y"
  by (auto simp add: checked_sub_def)

lemma checked_mul_eq_Inr: "checked_mul x y = Inr v \<longleftrightarrow> x * y \<le> UINT256_MAX \<and> v = x * y"
  by (auto simp add: checked_mul_def)

lemma tickSize_pos [simp]: "0 < tickSize"
  by (simp add: tickSize_def USDC_UNIT_def)

lemma upd_game_proj [simp]:
  "games (upd_game g f s) = (games s)(g := f (games s g))"
  "bettingPools (upd_game g f s) = bettingPools s"
  "gameBets (upd_game g f s) = gameBets s"
  "pendingPayouts (upd_game g f s) = pendingPayouts s"
  "houseFeePercentage (upd_game g f s) = houseFeePercentage s"
  "lowTierAmount (upd_game g f s) = lowTierAmount s"
  "mediumTierAmount (upd_game g f s) = mediumTierAmount s"
  "orders (upd_game g f s) = orders s"
  "orderbookLevels (upd_game g f s) = orderbookLevels s"
  "playerOrders (upd_game g f s) = playerOrders s"
  "resultSubmitted (upd_game g f s) = resultSubmitted s"
  "resultValue (upd_game g f s) = resultValue s"
  "resultResolved (upd_game g f s) = resultResolved s"
  "resultFinal (upd_game g f s) = resultFinal s"
  "playerGameIndex (upd_game g f s) = playerGameIndex s"
  "playerSeenGame (upd_game g f s) = playerSeenGame s"
  "tokenFeeBalance (upd_game g f s) = tokenFeeBalance s"
  "owner (upd_game g f s) = owner s"
  "paused (upd_game g f s) = paused s"
  "events (upd_game g f s) = events s"
  by (simp_all add: upd_game_def)

lemma upd_pool_proj [simp]:
  "games (upd_pool g f s) = games s"
  "bettingPools (upd_pool g f s) = (bettingPools s)(g := f (bettingPools s g))"
  "gameBets (upd_pool g f s) = gameBets s"
  "pendingPayouts (upd_pool g f s) = pendingPayouts s"
  "houseFeePercentage (upd_pool g f s) = houseFeePercentage s"
  "lowTierAmount (upd_pool g f s) = lowTierAmount s"
  "mediumTierAmount (upd_pool g f s) = mediumTierAmount s"
  "orders (upd_pool g f s) = orders s"
  "orderbookLevels (upd_pool g f s) = orderbookLevels s"
  "playerOrders (upd_pool g f s) = playerOrders s"
  "resultSubmitted (upd_pool g f s) = resultSubmitted s"
  "resultValue (upd_pool g f s) = resultValue s"
  "resultResolved (upd_pool g f s) = resultResolved s"
  "resultFinal (upd_pool g f s) = resultFinal s"
  "playerGameIndex (upd_pool g f s) = playerGameIndex s"
  "playerSeenGame (upd_pool g f s) = playerSeenGame s"
  "tokenFeeBalance (upd_pool g f s) = tokenFeeBalance s"
  "owner (upd_pool g f s) = owner s"
  "paused (upd_pool g f s) = paused s"
  "events (upd_pool g f s) = events s"
  by (simp_all add: upd_pool_def)

lemma upd_bet_proj [simp]:
  "games (upd_bet g i f s) = games s"
  "bettingPools (upd_bet g i f s) = bettingPools s"
  "gameBets (upd_bet g i f s) = (gameBets s)(g := (gameBets s g)[i := f (gameBets s g ! i)])"
  "pendingPayouts (upd_bet g i f s) = pendingPayouts s"
  "houseFeePercentage (upd_bet g i f s) = houseFeePercentage s"
  "lowTierAmount (upd_bet g i f s) = lowTierAmount s"
  "mediumTierAmount (upd_bet g i f s) = mediumTierAmount s"
  "orders (upd_bet g i f s) = orders s"
  "orderbookLevels (upd_bet g i f s) = orderbookLevels s"
  "playerOrders (upd_bet g i f s) = playerOrders s"
  "resultSubmitted (upd_bet g i f s) = resultSubmitted s"
  "resultValue (upd_bet g i f s) = resultValue s"
  "resultResolved (upd_bet g i f s) = resultResolved s"
  "resultFinal (upd_bet g i f s) = resultFinal s"
  "playerGameIndex (upd_bet g i f s) = playerGameIndex s"
  "playerSeenGame (upd_bet g i f s) = playerSeenGame s"
  "tokenFeeBalance (upd_bet g i f s) = tokenFeeBalance s"
  "owner (upd_bet g i f s) = owner s"
  "paused (upd_bet g i f s) = paused s"
  "events (upd_bet g i f s) = events s"
  by (simp_all add: upd_bet_def)

lemma upd_order_proj [simp]:
  "games (upd_order x f s) = games s"
  "bettingPools (upd_order x f s) = bettingPools s"
  "gameBets (upd_order x f s) = gameBets s"
  "pendingPayouts (upd_order x f s) = pendingPayouts s"
  "houseFeePercentage (upd_order x f s) = houseFeePercentage s"
  "lowTierAmount (upd_order x f s) = lowTierAmount s"
  "mediumTierAmount (upd_order x f s) = mediumTierAmount s"
  "orders (upd_order x f s) = (orders s)(x := f (orders s x))"
  "orderbookLevels (upd_order x f s) = orderbookLevels s"
  "playerOrders (upd_order x f s) = playerOrders s"
  "resultSubmitted (upd_order x f s) = resultSubmitted s"
  "resultValue (upd_order x f s) = resultValue s"
  "resultResolved (upd_order x f s) = resultResolved s"
  "resultFinal (upd_order x f s) = resultFinal s"
  "playerGameIndex (upd_order x f s) = playerGameIndex s"
  "playerSeenGame (upd_order x f s) = playerSeenGame s"
  "tokenFeeBalance (upd_order x f s) = tokenFeeBalance s"
  "owner (upd_order x f s) = owner s"
  "paused (upd_order x f s) = paused s"
  "events (upd_order x f s) = events s"
  by (simp_all add: upd_order_def)

lemma upd_level_proj [simp]:
  "games (upd_level k f s) = games s"
  "bettingPools (upd_level k f s) = bettingPools s"
  "gameBets (upd_level k f s) = gameBets s"
  "pendingPayouts (upd_level k f s) = pendingPayouts s"
  "houseFeePercentage (upd_level k f s) = houseFeePercentage s"
  "lowTierAmount (upd_level k f s) = lowTierAmount s"
  "mediumTierAmount (upd_level k f s) = mediumTierAmount s"
  "orders (upd_level k f s) = orders s"
  "orderbookLevels (upd_level k f s) = (orderbookLevels s)(k := f (orderbookLevels s k))"
  "playerOrders (upd_level k f s) = playerOrders s"
  "resultSubmitted (upd_level k f s) = resultSubmitted s"
  "resultValue (upd_level k f s) = resultValue s"
  "resultResolved (upd_level k f s) = resultResolved s"
  "resultFinal (upd_level k f s) = resultFinal s"
  "playerGameIndex (upd_level k f s) = playerGameIndex s"
  "playerSeenGame (upd_level k f s) = playerSeenGame s"
  "tokenFeeBalance (upd_level k f s) = tokenFeeBalance s"
  "owner (upd_level k f s) = owner s"
  "paused (upd_level k f s) = paused s"
  "events (upd_level k f s) = events s"
  by (simp_all add: upd_level_def)

lemma emit_proj [simp]:
  "games (emit ev s) = games s"
  "bettingPools (emit ev s) = bettingPools s"
  "gameBets (emit ev s) = gameBets s"
  "pendingPayouts (emit ev s) = pendingPayouts s"
  "houseFeePercentage (emit ev s) = houseFeePercentage s"
  "lowTierAmount (emit ev s) = lowTierAmount s"
  "mediumTierAmount (emit ev s) = mediumTierAmount s"
  "orders (emit ev s) = orders s"
  "orderbookLevels (emit ev s) = orderbookLevels s"
  "playerOrders (emit ev s) = playerOrders s"
  "resultSubmitted (emit ev s) = resultSubmitted s"
  "resultValue (emit ev s) = resultValue s"
  "resultResolved (emit ev s) = resultResolved s"
  "resultFinal (emit ev s) = resultFinal s"
  "playerGameIndex (emit ev s) = playerGameIndex s"
  "playerSeenGame (emit ev s) = playerSeenGame s"
  "tokenFeeBalance (emit ev s) = tokenFeeBalance s"
  "owner (emit ev s) = owner s"
  "paused (emit ev s) = paused s"
  "events (emit ev s) = events s @ [ev]"
  by (simp_all add: emit_def)

lemma indexPlayerGame_proj [simp]:
  "games (indexPlayerGame a g s) = games s"
  "bettingPools (indexPlayerGame a g s) = bettingPools s"
  "gameBets (indexPlayerGame a g s) = gameBets s"
  "pendingPayouts (indexPlayerGame a g s) = pendingPayouts s"
  "houseFeePercentage (indexPlayerGame a g s) = houseFeePercentage s"
  "lowTierAmount (indexPlayerGame a g s) = lowTierAmount s"
  "mediumTierAmount (indexPlayerGame a g s) = mediumTierAmount s"
  "orders (indexPlayerGame a g s) = orders s"
  "orderbookLevels (indexPlayerGame a g s) = orderbookLevels s"
  "playerOrders (indexPlayerGame a g s) = playerOrders s"
  "resultSubmitted (indexPlayerGame a g s) = resultSubmitted s"
  "resultValue (indexPlayerGame a g s) = resultValue s"
  "resultResolved (indexPlayerGame a g s) = resultResolved s"
  "resultFinal (indexPlayerGame a g s) = resultFinal s"
  "playerGameIndex (indexPlayerGame a g s) = (if playerSeenGame s a g then playerGameIndex s else (playerGameIndex s)(a := playerGameIndex s a @ [g]))"
  "playerSeenGame (indexPlayerGame a g s) = (if playerSeenGame s a g then playerSeenGame s else (playerSeenGame s)(a := (playerSeenGame s a)(g := True)))"
  "tokenFeeBalance (indexPlayerGame a g s) = tokenFeeBalance s"
  "owner (indexPlayerGame a g s) = owner s"
  "paused (indexPlayerGame a g s) = paused s"
  "events (indexPlayerGame a g s) = events s"
  by (simp_all add: indexPlayerGame_def Let_def)

text \<open>
  What creating a game for a match leaves alone: the orderbook, the payout ledger, the fee
  accumulator, the votes and the parameters.
\<close>

definition book_kept :: "contract \<Rightarrow> contract \<Rightarrow> bool" where
  "book_kept s s' \<longleftrightarrow>
     orders s' = orders s \<and> orderbookLevels s' = orderbookLevels s \<and>
     playerOrders s' = playerOrders s \<and> pendingPayouts s' = pendingPayouts s \<and>
     tokenFeeBalance s' = tokenFeeBalance s \<and> resultResolved s' = resultResolved s \<and>
     resultSubmitted s' = resultSubmitted s \<and> resultValue s' = resultValue s \<and>
     resultFinal s' = resultFinal s \<and> houseFeePercentage s' = houseFeePercentage s \<and>
     lowTierAmount s' = lowTierAmount s \<and> mediumTierAmount s' = mediumTierAmount s \<and>
     paused s' = paused s \<and> owner s' = owner s"

lemma book_kept_refl [simp]: "book_kept s s"
  by (simp add: book_kept_def)

lemma book_kept_trans: "book_kept s s1 \<Longrightarrow> book_kept s1 s2 \<Longrightarrow> book_kept s s2"
  by (simp add: book_kept_def)

lemma addToPool_kept: "addToPool g a s = Inr s' \<Longrightarrow> book_kept s s'"
  by (auto simp add: addToPool_def bnd_eq_Inr Let_def book_kept_def)

lemma recordBet_kept: "recordBet e g p a s = Inr s' \<Longrightarrow> book_kept s s'"
  by (auto simp add: recordBet_def bnd_eq_Inr Let_def book_kept_def dest!: addToPool_kept)

lemma createMatch_kept:
  assumes "createMatch H e a b amt s = Inr s'"
  shows "book_kept s s'"
proof -
  from assms obtain s2 s3 s4 g w bl where
    r1: "recordBet e g w amt s2 = Inr s3" and r2: "recordBet e g bl amt s3 = Inr s4"
    and k2: "book_kept s s2" and k4: "book_kept s4 s'"
    by (auto simp add: createMatch_def require_eq_Inr bnd_eq_Inr Let_def book_kept_def)
  from recordBet_kept [OF r1] recordBet_kept [OF r2] k2 k4 show ?thesis
    by (blast intro: book_kept_trans)
qed


lemma length_swapPop: "xs \<noteq> [] \<Longrightarrow> length (swapPop i xs) = length xs - 1"
  by (simp add: swapPop_def)

lemma length_swapPop_le [simp]: "length (swapPop i xs) \<le> length xs"
  by (simp add: swapPop_def)

lemma createMatch_levels: "createMatch H e a b amt s = Inr s' \<Longrightarrow> orderbookLevels s' = orderbookLevels s"
  by (drule createMatch_kept) (simp add: book_kept_def)

lemma matchStep_decreases:
  assumes step: "matchStep H e oid k s rem = Inr (s', rem', True)"
    and pos: "0 < rem" and ne: "orderIds (orderbookLevels s k) \<noteq> []"
  shows "rem' + length (orderIds (orderbookLevels s' k)) < rem + length (orderIds (orderbookLevels s k))"
proof -
  define opp where "opp = orderIds (orderbookLevels s k) ! 0"
  define oppRem where "oppRem = o_amount (orders s opp) - o_filledAmount (orders s opp)"
  define m where "m = (if rem < oppRem then rem else oppRem)"
  show ?thesis
  proof (cases "m = 0")
    case True
    with step pos ne show ?thesis
      by (auto simp add: matchStep_def Let_def bnd_eq_Inr checked_sub_eq_Inr opp_def oppRem_def
          m_def length_swapPop split: if_splits)
  next
    case False
    from step False obtain s1 where cm: "createMatch H e oid opp m s = Inr s1"
      and len: "length (orderIds (orderbookLevels s' k)) \<le> length (orderIds (orderbookLevels s1 k))"
      and r: "rem' = rem - m" "m \<le> rem"
      by (auto simp add: matchStep_def Let_def bnd_eq_Inr checked_sub_eq_Inr checked_add_eq_Inr
          opp_def oppRem_def m_def length_swapPop split: if_splits)
    from createMatch_levels [OF cm] len r False pos show ?thesis
      by simp
  qed
qed


text \<open>The \<^verbatim>\<open>while\<close> loop of \<^verbatim>\<open>_matchAtLevel\<close>.\<close>

function matchLoop ::
  "(nat list \<Rightarrow> bytes32) \<Rightarrow> env \<Rightarrow> bytes32 \<Rightarrow> nat \<times> nat \<times> nat \<Rightarrow> contract \<Rightarrow> nat
     \<Rightarrow> error + contract" where
  "matchLoop H e orderId k s remainingAmount =
     (if remainingAmount > 0 \<and> length (orderIds (orderbookLevels s k)) > 0 then
        (case matchStep H e orderId k s remainingAmount of
           Inl err \<Rightarrow> Inl err
         | Inr (s', remaining', continue) \<Rightarrow>
             if continue then matchLoop H e orderId k s' remaining' else Inr s')
      else Inr s)"
  by pat_completeness auto
termination
proof (relation "measure (\<lambda>(H, e, orderId, k, s, r). r + length (orderIds (orderbookLevels s k)))")
  show "wf (measure (\<lambda>(H, e, orderId, k, s, r). r + length (orderIds (orderbookLevels s k))))"
    by simp
next
  fix H e orderId k s remainingAmount x2 s' y remaining' continue
  assume "0 < remainingAmount \<and> 0 < length (orderIds (orderbookLevels s k))"
    and "matchStep H e orderId k s remainingAmount = Inr x2"
    and "(s', y) = x2" and "(remaining', continue) = y" and "continue"
  then show "((H, e, orderId, k, s', remaining'), (H, e, orderId, k, s, remainingAmount))
        \<in> measure (\<lambda>(H, e, orderId, k, s, r). r + length (orderIds (orderbookLevels s k)))"
    using matchStep_decreases [of H e orderId k s remainingAmount s' remaining']
    by auto
qed

definition matchAtLevel ::
  "(nat list \<Rightarrow> bytes32) \<Rightarrow> env \<Rightarrow> bytes32 \<Rightarrow> nat \<times> nat \<times> nat \<Rightarrow> nat \<Rightarrow> contract
     \<Rightarrow> error + contract" where
  "matchAtLevel H e orderId k maxAmount s =
     bnd (checked_sub (o_amount (orders s orderId)) (o_filledAmount (orders s orderId)))
       (\<lambda>orderRemaining.
         let remainingAmount = (if maxAmount \<le> orderRemaining then maxAmount else orderRemaining) in
         bnd (matchLoop H e orderId k s remainingAmount) (\<lambda>s1.
           if o_filledAmount (orders s1 orderId) \<ge> o_amount (orders s1 orderId) then
             Inr (upd_order orderId (\<lambda>r. r\<lparr>o_status := 2\<rparr>) s1)
           else if o_filledAmount (orders s1 orderId) > 0 then
             Inr (upd_order orderId (\<lambda>r. r\<lparr>o_status := 1\<rparr>) s1)
           else Inr s1))"

text \<open>
  The ascending \<^verbatim>\<open>for\<close> loop of \<^verbatim>\<open>_matchNearestLevels\<close>; \<open>tick += tickSize\<close> is a
  checked addition.
\<close>

function ascend ::
  "(nat list \<Rightarrow> bytes32) \<Rightarrow> env \<Rightarrow> bytes32 \<Rightarrow> nat \<Rightarrow> nat \<Rightarrow> nat \<Rightarrow> nat \<Rightarrow> contract
     \<Rightarrow> error + contract \<times> nat" where
  "ascend H e orderId oppositeSide maxTick tick remainingAmount s =
     (if tick \<le> maxTick \<and> remainingAmount > 0 then
        (if length (orderIds (orderbookLevels s
              (o_timeControl (orders s orderId), oppositeSide, tick))) > 0 then
           (case matchAtLevel H e orderId (o_timeControl (orders s orderId), oppositeSide, tick)
                   remainingAmount s of
              Inl err \<Rightarrow> Inl err
            | Inr s1 \<Rightarrow>
                (case checked_sub (o_amount (orders s1 orderId)) (o_filledAmount (orders s1 orderId)) of
                   Inl err \<Rightarrow> Inl err
                 | Inr remaining1 \<Rightarrow>
                     if remaining1 = 0 then Inr (s1, remaining1)
                     else if tick + tickSize \<le> UINT256_MAX then
                       ascend H e orderId oppositeSide maxTick (tick + tickSize) remaining1 s1
                     else Inl Panic))
         else if tick + tickSize \<le> UINT256_MAX then
           ascend H e orderId oppositeSide maxTick (tick + tickSize) remainingAmount s
         else Inl Panic)
      else Inr (s, remainingAmount))"
  by pat_completeness auto
termination
  by (relation "measure (\<lambda>(H, e, orderId, oppositeSide, maxTick, tick, r, s). Suc maxTick - tick)")
    (auto simp add: tickSize_def USDC_UNIT_def TOKEN_DECIMALS_def)

text \<open>The descending \<^verbatim>\<open>while\<close> loop of \<^verbatim>\<open>_matchNearestLevels\<close>.\<close>

function descend ::
  "(nat list \<Rightarrow> bytes32) \<Rightarrow> env \<Rightarrow> bytes32 \<Rightarrow> nat \<Rightarrow> nat \<Rightarrow> nat \<Rightarrow> nat \<Rightarrow> contract
     \<Rightarrow> error + contract" where
  "descend H e orderId oppositeSide minTick tick remainingAmount s =
     (if tick \<ge> minTick \<and> remainingAmount > 0 then
        (if length (orderIds (orderbookLevels s
              (o_timeControl (orders s orderId), oppositeSide, tick))) > 0 then
           (case matchAtLevel H e orderId (o_timeControl (orders s orderId), oppositeSide, tick)
                   remainingAmount s of
              Inl err \<Rightarrow> Inl err
            | Inr s1 \<Rightarrow>
                (case checked_sub (o_amount (orders s1 orderId)) (o_filledAmount (orders s1 orderId)) of
                   Inl err \<Rightarrow> Inl err
                 | Inr remaining1 \<Rightarrow>
                     if remaining1 = 0 then Inr s1
                     else if tick < tickSize then Inr s1
                     else descend H e orderId oppositeSide minTick (tick - tickSize) remaining1 s1))
         else if tick < tickSize then Inr s
         else descend H e orderId oppositeSide minTick (tick - tickSize) remainingAmount s)
      else Inr s)"
  by pat_completeness auto
termination
  by (relation "measure (\<lambda>(H, e, orderId, oppositeSide, minTick, tick, r, s). tick)")
    (auto simp add: tickSize_def USDC_UNIT_def TOKEN_DECIMALS_def)


definition matchNearestLevels ::
  "(nat list \<Rightarrow> bytes32) \<Rightarrow> env \<Rightarrow> bytes32 \<Rightarrow> nat \<Rightarrow> nat \<Rightarrow> contract \<Rightarrow> error + contract" where
  "matchNearestLevels H e orderId oppositeSide maxAmount s =
     bnd (checked_mul (o_tickAmount (orders s orderId)) tolerancePercentage) (\<lambda>m.
       let toleranceAmount = m div 100;
           minTick = (if o_tickAmount (orders s orderId) > toleranceAmount
                      then o_tickAmount (orders s orderId) - toleranceAmount else 0)
       in
       bnd (checked_add (o_tickAmount (orders s orderId)) toleranceAmount) (\<lambda>maxTick.
       bnd (checked_add (o_tickAmount (orders s orderId)) tickSize) (\<lambda>tick0.
       bnd (ascend H e orderId oppositeSide maxTick tick0 maxAmount s) (\<lambda>(s1, remaining1).
         if o_tickAmount (orders s1 orderId) \<ge> tickSize then
           descend H e orderId oppositeSide minTick (o_tickAmount (orders s1 orderId) - tickSize)
             remaining1 s1
         else Inr s1))))"

definition attemptMatch ::
  "(nat list \<Rightarrow> bytes32) \<Rightarrow> env \<Rightarrow> bytes32 \<Rightarrow> contract \<Rightarrow> error + contract" where
  "attemptMatch H e orderId s =
     (if o_status (orders s orderId) \<noteq> 0 then Inr s
      else
        (let oppositeSide = (if o_side (orders s orderId) = 0 then 1 else 0);
             exactLevel = (o_timeControl (orders s orderId), oppositeSide,
                           o_tickAmount (orders s orderId))
         in
         bnd (if l_totalAmount (orderbookLevels s exactLevel) > 0 then
                bnd (checked_sub (o_amount (orders s orderId)) (o_filledAmount (orders s orderId)))
                  (\<lambda>remainingBefore. matchAtLevel H e orderId exactLevel remainingBefore s)
              else Inr s) (\<lambda>s1.
           if o_status (orders s1 orderId) = 0 \<or> o_status (orders s1 orderId) = 1 then
             bnd (checked_sub (o_amount (orders s1 orderId)) (o_filledAmount (orders s1 orderId)))
               (\<lambda>remainingAfter.
                  if remainingAfter > 0 then
                    matchNearestLevels H e orderId oppositeSide remainingAfter s1
                  else Inr s1)
           else Inr s1)))"

definition newOrder :: "bytes32 \<Rightarrow> address \<Rightarrow> nat \<Rightarrow> nat \<Rightarrow> nat \<Rightarrow> nat \<Rightarrow> Order" where
  "newOrder orderId player side quantizedAmount timeControl now =
     \<lparr>o_id = orderId, o_player = player, o_side = side, o_amount = quantizedAmount,
      o_tickAmount = quantizedAmount, o_timeControl = timeControl, o_createdAt = now,
      o_filledAmount = 0, o_status = 0\<rparr>"

definition placeOrder ::
  "(nat list \<Rightarrow> bytes32) \<Rightarrow> 't token \<Rightarrow> env \<Rightarrow> nat \<Rightarrow> nat \<Rightarrow> nat \<Rightarrow> contract \<times> 't
     \<Rightarrow> error + (contract \<times> 't) \<times> bytes32" where
  "placeOrder H tok e side timeControl amount w =
     (case w of (s, t) \<Rightarrow>
      if paused s then Inl EnforcedPause else
      require (side \<le> 1) ''Invalid side'' (
      require (amount \<ge> tickSize) ''Amount below minimum tick size'' (
      let quantizedAmount = quantizeAmount amount in
      require (quantizedAmount > 0) ''Amount too small after quantization'' (
      case safeTransferFrom tok s (msg_sender e) quantizedAmount t of
        None \<Rightarrow> Inl TransferFailed
      | Some t' \<Rightarrow>
          (let orderId = H [msg_sender e, side, quantizedAmount, timeControl,
                            block_timestamp e, block_number e];
               s1 = s\<lparr>orders := (orders s)(orderId :=
                      newOrder orderId (msg_sender e) side quantizedAmount timeControl
                        (block_timestamp e))\<rparr>;
               s2 = s1\<lparr>playerOrders := (playerOrders s1)
                      (msg_sender e := playerOrders s1 (msg_sender e) @ [orderId])\<rparr>;
               level = (timeControl, side, quantizedAmount);
               s3 = (if l_tickAmount (orderbookLevels s2 level) = 0
                     then upd_level level (\<lambda>l. l\<lparr>l_tickAmount := quantizedAmount\<rparr>) s2
                     else s2);
               s4 = upd_level level (\<lambda>l. l\<lparr>orderIds := orderIds l @ [orderId]\<rparr>) s3
           in bnd (checked_add (l_totalAmount (orderbookLevels s4 level)) quantizedAmount) (\<lambda>total.
              bnd (attemptMatch H e orderId
                     (upd_level level (\<lambda>l. l\<lparr>l_totalAmount := total\<rparr>) s4)) (\<lambda>s5.
                Inr ((s5, t'), orderId))))))))"

text \<open>
  The removal loop of \<^verbatim>\<open>cancelOrder\<close>: the first index holding the order is overwritten
  with the last element, the array is popped, and the loop stops.
\<close>

fun removeOrderId :: "bytes32 \<Rightarrow> nat list \<Rightarrow> bytes32 list \<Rightarrow> bytes32 list" where
  "removeOrderId orderId [] xs = xs"
| "removeOrderId orderId (i # is) xs =
     (if xs ! i = orderId then swapPop i xs else removeOrderId orderId is xs)"

definition cancelOrder ::
  "'t token \<Rightarrow> env \<Rightarrow> bytes32 \<Rightarrow> contract \<times> 't \<Rightarrow> error + contract \<times> 't" where
  "cancelOrder tok e orderId w =
     (case w of (s, t) \<Rightarrow>
      require (o_player (orders s orderId) = msg_sender e) ''Not order owner'' (
      require (o_status (orders s orderId) = 0 \<or> o_status (orders s orderId) = 1)
        ''Cannot cancel filled or cancelled order'' (
        let s1 = upd_order orderId (\<lambda>r. r\<lparr>o_status := 3\<rparr>) s;
            level = (o_timeControl (orders s1 orderId), o_side (orders s1 orderId),
                     o_tickAmount (orders s1 orderId));
            s2 = upd_level level
                   (\<lambda>l. l\<lparr>orderIds := removeOrderId orderId [0 ..< length (orderIds l)] (orderIds l)\<rparr>) s1
        in
        bnd (checked_sub (o_amount (orders s2 orderId)) (o_filledAmount (orders s2 orderId))) (\<lambda>unfilled.
        bnd (checked_sub (l_totalAmount (orderbookLevels s2 level)) unfilled) (\<lambda>total.
          let s3 = upd_level level (\<lambda>l. l\<lparr>l_totalAmount := total\<rparr>) s2 in
          bnd (checked_sub (o_amount (orders s3 orderId)) (o_filledAmount (orders s3 orderId)))
            (\<lambda>refundAmount.
               if refundAmount > 0 then
                 (case safeTransfer tok s3 (msg_sender e) refundAmount t of
                    None \<Rightarrow> Inl TransferFailed
                  | Some t' \<Rightarrow> Inr (s3, t'))
               else Inr (s3, t)))))))"

subsection \<open>The engine reimplementation: \<^verbatim>\<open>OrderbookManager\<close> of ChessEngine.ts\<close>

text \<open>
  \<^verbatim>\<open>bigint\<close> values are integers (the engine never checks a sign); bigint division
  truncates towards zero. \<^verbatim>\<open>Order\<close> objects are shared between \<^verbatim>\<open>allOrders\<close> and the
  queues of the levels, so they live in a heap and are named by reference. A
  \<^verbatim>\<open>Map\<close> is an association list in insertion order. The identifiers built from
  \<^verbatim>\<open>Date.now()\<close> and \<^verbatim>\<open>Math.random()\<close> are supplied by the caller of the model.
\<close>

datatype OrderSide = White | Black

datatype OrderStatus = Open | PartiallyFilled | Filled | Cancelled

datatype ts_error = Error string

record ts_Order =
  t_id :: string
  t_playerAddress :: string
  t_side :: OrderSide
  t_amount :: int
  t_tickAmount :: int
  t_timeControl :: "int \<times> int"
  t_filledAmount :: int
  t_status :: OrderStatus

record ts_Level =
  tl_tickAmount :: int
  tl_orders :: "nat list"
  tl_totalAmount :: int

record ts_Orderbook =
  whiteLevels :: "(int \<times> ts_Level) list"
  blackLevels :: "(int \<times> ts_Level) list"
  allOrders :: "(string \<times> nat) list"

record ts_Manager =
  orderbooks :: "((int \<times> int) \<times> ts_Orderbook) list"
  heap :: "nat \<Rightarrow> ts_Order"
  nextRef :: nat

definition TICK_SIZE :: int where "TICK_SIZE = 10 * 10 ^ 18"
definition TOLERANCE_PERCENTAGE :: int where "TOLERANCE_PERCENTAGE = 5"

definition bigint_div :: "int \<Rightarrow> int \<Rightarrow> int" where
  "bigint_div a b = sgn a * sgn b * (\<bar>a\<bar> div \<bar>b\<bar>)"

definition ts_quantizeAmount :: "int \<Rightarrow> int" where
  "ts_quantizeAmount amount = bigint_div amount TICK_SIZE * TICK_SIZE"

fun mapSet :: "'k \<Rightarrow> 'v \<Rightarrow> ('k \<times> 'v) list \<Rightarrow> ('k \<times> 'v) list" where
  "mapSet k v [] = [(k, v)]"
| "mapSet k v (p # ps) = (if fst p = k then (k, v) # ps else p # mapSet k v ps)"

definition mapHas :: "'k \<Rightarrow> ('k \<times> 'v) list \<Rightarrow> bool" where
  "mapHas k m = (map_of m k \<noteq> None)"

definition emptyOrderbook :: ts_Orderbook where
  "emptyOrderbook = \<lparr>whiteLevels = [], blackLevels = [], allOrders = []\<rparr>"

definition emptyLevel :: "int \<Rightarrow> ts_Level" where
  "emptyLevel tick = \<lparr>tl_tickAmount = tick, tl_orders = [], tl_totalAmount = 0\<rparr>"

definition getOrCreateOrderbook :: "int \<times> int \<Rightarrow> ts_Manager \<Rightarrow> ts_Manager" where
  "getOrCreateOrderbook tc m =
     (if \<not> mapHas tc (orderbooks m) then m\<lparr>orderbooks := mapSet tc emptyOrderbook (orderbooks m)\<rparr>
      else m)"

definition bookOf :: "ts_Manager \<Rightarrow> int \<times> int \<Rightarrow> ts_Orderbook" where
  "bookOf m tc = (case map_of (orderbooks m) tc of Some b \<Rightarrow> b | None \<Rightarrow> emptyOrderbook)"

definition levelsOf :: "ts_Manager \<Rightarrow> int \<times> int \<Rightarrow> OrderSide \<Rightarrow> (int \<times> ts_Level) list" where
  "levelsOf m tc side = (if side = White then whiteLevels (bookOf m tc) else blackLevels (bookOf m tc))"

definition setLevels ::
  "int \<times> int \<Rightarrow> OrderSide \<Rightarrow> (int \<times> ts_Level) list \<Rightarrow> ts_Manager \<Rightarrow> ts_Manager" where
  "setLevels tc side ls m =
     m\<lparr>orderbooks := mapSet tc
         (if side = White then (bookOf m tc)\<lparr>whiteLevels := ls\<rparr>
          else (bookOf m tc)\<lparr>blackLevels := ls\<rparr>) (orderbooks m)\<rparr>"

definition levelAt :: "ts_Manager \<Rightarrow> int \<times> int \<Rightarrow> OrderSide \<Rightarrow> int \<Rightarrow> ts_Level" where
  "levelAt m tc side key =
     (case map_of (levelsOf m tc side) key of Some l \<Rightarrow> l | None \<Rightarrow> emptyLevel key)"

definition updLevel ::
  "int \<times> int \<Rightarrow> OrderSide \<Rightarrow> int \<Rightarrow> (ts_Level \<Rightarrow> ts_Level) \<Rightarrow> ts_Manager \<Rightarrow> ts_Manager" where
  "updLevel tc side key f m =
     setLevels tc side (mapSet key (f (levelAt m tc side key)) (levelsOf m tc side)) m"

definition updRef :: "nat \<Rightarrow> (ts_Order \<Rightarrow> ts_Order) \<Rightarrow> ts_Manager \<Rightarrow> ts_Manager" where
  "updRef r f m = m\<lparr>heap := (heap m)(r := f (heap m r))\<rparr>"

type_synonym ts_match = "nat \<times> nat \<times> int"

text \<open>
  One iteration of the loop of \<^verbatim>\<open>matchAtLevel\<close>; the level is the one stored under
  \<open>key\<close> on side \<open>side\<close> of the book of \<open>tc\<close>. A match records the references of
  the white and of the black order and the matched amount.
\<close>

definition ts_matchStep ::
  "nat \<Rightarrow> int \<times> int \<Rightarrow> OrderSide \<Rightarrow> int \<Rightarrow> ts_Manager \<times> ts_match list \<times> int
     \<Rightarrow> ts_Manager \<times> ts_match list \<times> int" where
  "ts_matchStep order tc side key st =
     (case st of (m, matches, remainingAmount) \<Rightarrow>
      let oppositeOrder = tl_orders (levelAt m tc side key) ! 0;
          oppositeRemaining = t_amount (heap m oppositeOrder) - t_filledAmount (heap m oppositeOrder);
          matchAmount = (if remainingAmount < oppositeRemaining then remainingAmount
                         else oppositeRemaining);
          matches' = matches @ [(if t_side (heap m order) = White then order else oppositeOrder,
                                 if t_side (heap m order) = Black then order else oppositeOrder,
                                 matchAmount)];
          m1 = updRef order (\<lambda>r. r\<lparr>t_filledAmount := t_filledAmount r + matchAmount\<rparr>) m;
          m2 = updRef oppositeOrder (\<lambda>r. r\<lparr>t_filledAmount := t_filledAmount r + matchAmount\<rparr>) m1;
          remaining' = remainingAmount - matchAmount;
          m3 = updLevel tc side key (\<lambda>l. l\<lparr>tl_totalAmount := tl_totalAmount l - matchAmount\<rparr>) m2
      in if t_filledAmount (heap m3 oppositeOrder) \<ge> t_amount (heap m3 oppositeOrder) then
           (updLevel tc side key (\<lambda>l. l\<lparr>tl_orders := tl (tl_orders l)\<rparr>)
              (updRef oppositeOrder (\<lambda>r. r\<lparr>t_status := Filled\<rparr>) m3), matches', remaining')
         else (m3, matches', remaining'))"


lemma map_of_mapSet [simp]: "map_of (mapSet k v xs) = (map_of xs)(k \<mapsto> v)"
  by (induction xs) (auto simp add: fun_eq_iff)

lemma levelAt_updLevel [simp]: "levelAt (updLevel tc side key f m) tc side key = f (levelAt m tc side key)"
  by (simp add: levelAt_def updLevel_def setLevels_def levelsOf_def bookOf_def)

lemma heap_updLevel [simp]: "heap (updLevel tc side key f m) = heap m"
  by (simp add: updLevel_def setLevels_def)

lemma levelAt_updRef [simp]: "levelAt (updRef r f m) tc side key = levelAt m tc side key"
  by (simp add: levelAt_def updRef_def levelsOf_def bookOf_def)

lemma heap_updRef [simp]: "heap (updRef r f m) = (heap m)(r := f (heap m r))"
  by (simp add: updRef_def)

definition ts_measure :: "int \<times> int \<Rightarrow> OrderSide \<Rightarrow> int \<Rightarrow> ts_Manager \<Rightarrow> int \<Rightarrow> nat" where
  "ts_measure tc side key m remainingAmount =
     3 * length (tl_orders (levelAt m tc side key)) +
     (if remainingAmount \<le> 0 then 0
      else if t_amount (heap m (tl_orders (levelAt m tc side key) ! 0))
              < t_filledAmount (heap m (tl_orders (levelAt m tc side key) ! 0)) then 2
      else 1)"

lemma ts_matchStep_decreases:
  assumes "ts_matchStep order tc side key (m, ms, r) = (m', ms', r')"
    and "0 < r" and "tl_orders (levelAt m tc side key) \<noteq> []"
  shows "ts_measure tc side key m' r' < ts_measure tc side key m r"
  using assms
  by (cases "tl_orders (levelAt m tc side key)")
     (auto simp add: ts_matchStep_def ts_measure_def Let_def split: if_splits)

function ts_matchLoop ::
  "nat \<Rightarrow> int \<times> int \<Rightarrow> OrderSide \<Rightarrow> int \<Rightarrow> ts_Manager \<times> ts_match list \<times> int
     \<Rightarrow> ts_Manager \<times> ts_match list \<times> int" where
  "ts_matchLoop order tc side key st =
     (if snd (snd st) > 0 \<and> length (tl_orders (levelAt (fst st) tc side key)) > 0
      then ts_matchLoop order tc side key (ts_matchStep order tc side key st)
      else st)"
  by pat_completeness auto
termination
proof (relation "measure (\<lambda>(order, tc, side, key, m, ms, r). ts_measure tc side key m r)")
  show "wf (measure (\<lambda>(order, tc, side, key, m, ms, r). ts_measure tc side key m r))"
    by simp
next
  fix order :: nat and tc side key and st :: "ts_Manager \<times> ts_match list \<times> int"
  assume a: "0 < snd (snd st) \<and> 0 < length (tl_orders (levelAt (fst st) tc side key))"
  obtain m ms r where st: "st = (m, ms, r)" by (cases st) auto
  obtain m' ms' r' where st': "ts_matchStep order tc side key (m, ms, r) = (m', ms', r')"
    by (cases "ts_matchStep order tc side key (m, ms, r)") auto
  from a st have "0 < r" "tl_orders (levelAt m tc side key) \<noteq> []" by auto
  from ts_matchStep_decreases [OF st' this]
  show "((order, tc, side, key, ts_matchStep order tc side key st), (order, tc, side, key, st))
        \<in> measure (\<lambda>(order, tc, side, key, m, ms, r). ts_measure tc side key m r)"
    by (simp add: st st')
qed


definition ts_matchAtLevel ::
  "nat \<Rightarrow> int \<times> int \<Rightarrow> OrderSide \<Rightarrow> int \<Rightarrow> int \<Rightarrow> ts_Manager
     \<Rightarrow> ts_Manager \<times> ts_match list \<times> int" where
  "ts_matchAtLevel order tc side key maxAmount m = ts_matchLoop order tc side key (m, [], maxAmount)"

definition distance :: "int \<Rightarrow> ts_Level \<Rightarrow> int" where
  "distance tick l = (if tl_tickAmount l > tick then tl_tickAmount l - tick else tick - tl_tickAmount l)"

text \<open>
  \<^verbatim>\<open>candidateLevels\<close>: the levels of the opposite side inside the band, sorted by their
  distance from the tick of the order (\<^verbatim>\<open>Array.prototype.sort\<close> is stable). The loop
  walks the level objects of this array; the model names them by their keys.
\<close>

definition candidateLevels :: "int \<Rightarrow> (int \<times> ts_Level) list \<Rightarrow> (int \<times> ts_Level) list" where
  "candidateLevels tick oppositeLevels =
     (let toleranceAmount = bigint_div (tick * TOLERANCE_PERCENTAGE) 100;
          minTick = tick - toleranceAmount;
          maxTick = tick + toleranceAmount
      in sort_key (\<lambda>p. distance tick (snd p))
           (filter (\<lambda>p. tl_tickAmount (snd p) \<ge> minTick \<and> tl_tickAmount (snd p) \<le> maxTick)
              oppositeLevels))"

fun ts_visit ::
  "nat \<Rightarrow> int \<times> int \<Rightarrow> OrderSide \<Rightarrow> int list \<Rightarrow> ts_Manager \<times> ts_match list \<times> int
     \<Rightarrow> ts_Manager \<times> ts_match list \<times> int" where
  "ts_visit order tc side [] st = st"
| "ts_visit order tc side (key # keys) st =
     (case st of (m, matches, remainingAmount) \<Rightarrow>
      if remainingAmount \<le> 0 then st
      else (case ts_matchAtLevel order tc side key remainingAmount m of
              (m', levelMatches, remaining') \<Rightarrow>
                ts_visit order tc side keys (m', matches @ levelMatches, remaining')))"

definition ts_matchNearestLevels ::
  "nat \<Rightarrow> int \<times> int \<Rightarrow> OrderSide \<Rightarrow> int \<Rightarrow> ts_Manager \<Rightarrow> ts_Manager \<times> ts_match list \<times> int" where
  "ts_matchNearestLevels order tc side maxAmount m =
     ts_visit order tc side
       (map fst (candidateLevels (t_tickAmount (heap m order)) (levelsOf m tc side)))
       (m, [], maxAmount)"

definition ts_attemptMatch :: "nat \<Rightarrow> ts_Manager \<Rightarrow> ts_Manager \<times> ts_match list \<times> int" where
  "ts_attemptMatch order m0 =
     (let tc = t_timeControl (heap m0 order);
          m = getOrCreateOrderbook tc m0;
          oppositeSide = (if t_side (heap m order) = White then Black else White);
          remainingAmount = t_amount (heap m order) - t_filledAmount (heap m order);
          exactLevelKey = t_tickAmount (heap m order);
          st1 = (if mapHas exactLevelKey (levelsOf m tc oppositeSide)
                 then ts_matchAtLevel order tc oppositeSide exactLevelKey remainingAmount m
                 else (m, [], remainingAmount))
      in case st1 of (m1, matches1, remaining1) \<Rightarrow>
         (case (if remaining1 > 0 then
                  (case ts_matchNearestLevels order tc oppositeSide remaining1 m1 of
                     (m2, matches2, remaining2) \<Rightarrow> (m2, matches1 @ matches2, remaining2))
                else (m1, matches1, remaining1)) of
            (m3, matches3, remaining3) \<Rightarrow>
              (if remaining3 = 0 then updRef order (\<lambda>r. r\<lparr>t_status := Filled\<rparr>) m3
               else if t_filledAmount (heap m3 order) > 0
               then updRef order (\<lambda>r. r\<lparr>t_status := PartiallyFilled\<rparr>) m3
               else m3, matches3, remaining3)))"

definition ts_placeOrder ::
  "string \<Rightarrow> string \<Rightarrow> OrderSide \<Rightarrow> int \<Rightarrow> int \<times> int \<Rightarrow> ts_Manager
     \<Rightarrow> ts_error + ts_Manager \<times> nat" where
  "ts_placeOrder orderId playerAddress side amount timeControl m0 =
     (let quantizedAmount = ts_quantizeAmount amount in
      if quantizedAmount = 0 then Inl (Error ''Amount too small after quantization'')
      else
        (let order = nextRef m0;
             m1 = m0\<lparr>heap := (heap m0)(order :=
                      \<lparr>t_id = orderId, t_playerAddress = playerAddress, t_side = side,
                       t_amount = amount, t_tickAmount = quantizedAmount,
                       t_timeControl = timeControl, t_filledAmount = 0, t_status = Open\<rparr>),
                    nextRef := Suc (nextRef m0)\<rparr>;
             m2 = getOrCreateOrderbook timeControl m1;
             m3 = m2\<lparr>orderbooks := mapSet timeControl
                      ((bookOf m2 timeControl)\<lparr>allOrders :=
                          mapSet orderId order (allOrders (bookOf m2 timeControl))\<rparr>)
                      (orderbooks m2)\<rparr>;
             m4 = (if \<not> mapHas quantizedAmount (levelsOf m3 timeControl side)
                   then setLevels timeControl side
                          (mapSet quantizedAmount (emptyLevel quantizedAmount)
                             (levelsOf m3 timeControl side)) m3
                   else m3);
             m5 = updLevel timeControl side quantizedAmount
                    (\<lambda>l. l\<lparr>tl_orders := tl_orders l @ [order]\<rparr>) m4;
             m6 = updLevel timeControl side quantizedAmount
                    (\<lambda>l. l\<lparr>tl_totalAmount := tl_totalAmount l + quantizedAmount\<rparr>) m5
         in Inr (fst (ts_attemptMatch order m6), order)))"

definition ts_empty :: ts_Manager where
  "ts_empty = \<lparr>orderbooks = [], heap = (\<lambda>_. \<lparr>t_id = [], t_playerAddress = [], t_side = White,
       t_amount = 0, t_tickAmount = 0, t_timeControl = (0, 0), t_filledAmount = 0,
       t_status = Open\<rparr>), nextRef = 0\<rparr>"

subsection \<open>Settling a pool with two bets\<close>

lemma upt_0_2: "[0 ..< 2] = [0, Suc 0]"
  by (simp add: upt_rec)

lemma credit_ok:
  "pendingPayouts s a + n \<le> UINT256_MAX \<Longrightarrow>
   credit a n s = Inr (s\<lparr>pendingPayouts := (pendingPayouts s)(a := pendingPayouts s a + n)\<rparr>)"
  by (simp add: credit_def checked_add_def)

lemma refundBets_two:
  assumes bets: "gameBets s g = [b1, b2]"
    and o1: "pendingPayouts s (b_player b1) + b_amount b1 + b_amount b2 \<le> UINT256_MAX"
    and o2: "pendingPayouts s (b_player b2) + b_amount b1 + b_amount b2 \<le> UINT256_MAX"
  shows "\<exists>s'. refundBets e g [0, Suc 0] s = Inr s' \<and>
           (\<forall>x. pendingPayouts s' x = pendingPayouts s x
                  + (if x = b_player b1 then b_amount b1 else 0)
                  + (if x = b_player b2 then b_amount b2 else 0)) \<and>
           gameBets s' g = [b1\<lparr>b_status := 3, b_payout := b_amount b1, b_resolvedAt := block_timestamp e\<rparr>,
                            b2\<lparr>b_status := 3, b_payout := b_amount b2, b_resolvedAt := block_timestamp e\<rparr>] \<and>
           bettingPools s' = bettingPools s \<and> games s' = games s \<and>
           tokenFeeBalance s' = tokenFeeBalance s \<and> resultResolved s' = resultResolved s \<and>
           resultFinal s' = resultFinal s"
  using assms
  by (simp add: credit_ok Let_def)

lemma resolveBets_draw:
  assumes bets: "gameBets s g = [b1, b2]"
    and unres: "\<not> resolved (bettingPools s g)"
    and o1: "pendingPayouts s (b_player b1) + b_amount b1 + b_amount b2 \<le> UINT256_MAX"
    and o2: "pendingPayouts s (b_player b2) + b_amount b1 + b_amount b2 \<le> UINT256_MAX"
  shows "\<exists>s'. resolveBets e s g RESULT_DRAW = Inr s' \<and>
           (\<forall>x. pendingPayouts s' x = pendingPayouts s x
                  + (if x = b_player b1 then b_amount b1 else 0)
                  + (if x = b_player b2 then b_amount b2 else 0)) \<and>
           gameBets s' g = [b1\<lparr>b_status := 3, b_payout := b_amount b1, b_resolvedAt := block_timestamp e\<rparr>,
                            b2\<lparr>b_status := 3, b_payout := b_amount b2, b_resolvedAt := block_timestamp e\<rparr>] \<and>
           winner (bettingPools s' g) = 0 \<and> resolved (bettingPools s' g) \<and>
           p_houseFee (bettingPools s' g) = 0 \<and>
           tokenFeeBalance s' = tokenFeeBalance s \<and> games s' = games s \<and>
           resultResolved s' = resultResolved s \<and> resultFinal s' = resultFinal s"
proof -
  let ?s1 = "upd_pool g (\<lambda>p. p\<lparr>resolved := True\<rparr>) s"
  have "gameBets ?s1 g = [b1, b2]" using bets by simp
  from refundBets_two [OF this, of e] o1 o2
  obtain s2 where r: "refundBets e g [0, Suc 0] ?s1 = Inr s2"
    and p: "\<forall>x. pendingPayouts s2 x = pendingPayouts s x
                  + (if x = b_player b1 then b_amount b1 else 0)
                  + (if x = b_player b2 then b_amount b2 else 0)"
    and rest: "gameBets s2 g = [b1\<lparr>b_status := 3, b_payout := b_amount b1, b_resolvedAt := block_timestamp e\<rparr>,
                            b2\<lparr>b_status := 3, b_payout := b_amount b2, b_resolvedAt := block_timestamp e\<rparr>]"
      "bettingPools s2 = bettingPools ?s1" "games s2 = games s"
      "tokenFeeBalance s2 = tokenFeeBalance s" "resultResolved s2 = resultResolved s"
      "resultFinal s2 = resultFinal s"
    by auto
  show ?thesis
    using unres bets r p rest
    by (simp add: resolveBets_def upt_0_2)
qed


text \<open>What the winner-takes-all loop writes into a bet, for the winner \<open>w\<close>.\<close>

definition settle :: "address \<Rightarrow> nat \<Rightarrow> nat \<Rightarrow> GameBet \<Rightarrow> GameBet" where
  "settle w netPool now b =
     (if b_player b = w then b\<lparr>b_status := 0, b_payout := netPool, b_resolvedAt := now\<rparr>
      else b\<lparr>b_status := 1, b_payout := 0, b_resolvedAt := now\<rparr>)"

lemma payWinner_two:
  assumes bets: "gameBets s g = [b1, b2]"
    and o: "pendingPayouts s w + 2 * n \<le> UINT256_MAX"
  shows "\<exists>s'. payWinner e g w n [0, Suc 0] s = Inr s' \<and>
           (\<forall>x. pendingPayouts s' x = pendingPayouts s x
                  + (if b_player b1 = w \<and> x = w then n else 0)
                  + (if b_player b2 = w \<and> x = w then n else 0)) \<and>
           gameBets s' g = [settle w n (block_timestamp e) b1, settle w n (block_timestamp e) b2] \<and>
           bettingPools s' = bettingPools s \<and> games s' = games s \<and>
           tokenFeeBalance s' = tokenFeeBalance s \<and> resultResolved s' = resultResolved s \<and>
           resultFinal s' = resultFinal s"
proof (cases "b_player b1 = w")
  case True
  note p1 = this
  show ?thesis
  proof (cases "b_player b2 = w")
    case True
    with p1 bets o show ?thesis by (simp add: credit_ok Let_def settle_def)
  next
    case False
    with p1 bets o show ?thesis by (simp add: credit_ok Let_def settle_def)
  qed
next
  case False
  note p1 = this
  show ?thesis
  proof (cases "b_player b2 = w")
    case True
    with p1 bets o show ?thesis by (simp add: credit_ok Let_def settle_def)
  next
    case False
    with p1 bets o show ?thesis by (simp add: credit_ok Let_def settle_def)
  qed
qed

lemma resolveBets_decisive:
  assumes bets: "gameBets s g = [b1, b2]"
    and unres: "\<not> resolved (bettingPools s g)"
    and dec: "result \<noteq> RESULT_DRAW"
    and w: "w = (if result = RESULT_WHITE then whitePlayer (games s g) else blackPlayer (games s g))"
    and fee: "p_houseFee (bettingPools s g) \<le> p_totalAmount (bettingPools s g)"
    and n: "n = p_totalAmount (bettingPools s g) - p_houseFee (bettingPools s g)"
    and o1: "tokenFeeBalance s + p_houseFee (bettingPools s g) \<le> UINT256_MAX"
    and o2: "pendingPayouts s w + 2 * n \<le> UINT256_MAX"
  shows "\<exists>s'. resolveBets e s g result = Inr s' \<and>
           (\<forall>x. pendingPayouts s' x = pendingPayouts s x
                  + (if b_player b1 = w \<and> x = w then n else 0)
                  + (if b_player b2 = w \<and> x = w then n else 0)) \<and>
           gameBets s' g = [settle w n (block_timestamp e) b1, settle w n (block_timestamp e) b2] \<and>
           winner (bettingPools s' g) = w \<and> resolved (bettingPools s' g) \<and>
           p_houseFee (bettingPools s' g) = p_houseFee (bettingPools s g) \<and>
           p_totalAmount (bettingPools s' g) = p_totalAmount (bettingPools s g) \<and>
           tokenFeeBalance s' = tokenFeeBalance s + p_houseFee (bettingPools s g) \<and>
           games s' = games s \<and>
           resultResolved s' = resultResolved s \<and> resultFinal s' = resultFinal s"
proof -
  let ?s1 = "upd_pool g (\<lambda>p. p\<lparr>resolved := True\<rparr>) s"
  let ?s2 = "emit (GameResolved g w result) (upd_pool g (\<lambda>p. p\<lparr>winner := w\<rparr>) ?s1)"
  let ?s3 = "?s2\<lparr>tokenFeeBalance := tokenFeeBalance s + p_houseFee (bettingPools s g)\<rparr>"
  have cf: "creditFee (p_houseFee (bettingPools ?s2 g)) ?s2 = Inr ?s3"
    using o1 by (simp add: creditFee_def checked_add_def)
  have b3: "gameBets ?s3 g = [b1, b2]" using bets by simp
  have o3: "pendingPayouts ?s3 w + 2 * n \<le> UINT256_MAX" using o2 by simp
  from payWinner_two [OF b3 o3, of e]
  obtain s4 where r: "payWinner e g w n [0, Suc 0] ?s3 = Inr s4"
    and p: "\<forall>x. pendingPayouts s4 x = pendingPayouts s x
                  + (if b_player b1 = w \<and> x = w then n else 0)
                  + (if b_player b2 = w \<and> x = w then n else 0)"
    and rest: "gameBets s4 g = [settle w n (block_timestamp e) b1, settle w n (block_timestamp e) b2]"
      "bettingPools s4 = bettingPools ?s3" "games s4 = games s"
      "tokenFeeBalance s4 = tokenFeeBalance ?s3" "resultResolved s4 = resultResolved s"
      "resultFinal s4 = resultFinal s"
    by auto
  have "resolveBets e s g result = Inr s4"
  proof (cases "result = RESULT_WHITE")
    case True
    with unres bets dec w fee n cf r show ?thesis
      by (simp add: resolveBets_def upt_0_2 checked_sub_def Let_def del: payWinner.simps)
  next
    case False
    with unres bets dec w fee n cf r show ?thesis
      by (simp add: resolveBets_def upt_0_2 checked_sub_def Let_def del: payWinner.simps)
  qed
  with p rest show ?thesis by simp
qed


subsection \<open>A sample deployment\<close>

text \<open>
  Concrete runs use a stand-in for \<^verbatim>\<open>keccak256\<close> (only that it is a function and never
  zero matters), a token that keeps balances and moves them when the payer can afford
  it, and three funded accounts 11, 12 and 13; the contract is deployed by account 1 at
  address 99.
\<close>

definition sampleHash :: "nat list \<Rightarrow> bytes32" where
  "sampleHash xs = Suc (foldr (\<lambda>x h. x + 1000 * h) xs 0)"

definition ledgerToken :: "address \<Rightarrow> (address \<Rightarrow> nat) token" where
  "ledgerToken this =
     \<lparr>safeTransfer = (\<lambda>c to amount bal.
        if amount \<le> bal this
        then Some ((bal(this := bal this - amount))(to := (bal(this := bal this - amount)) to + amount))
        else None),
      safeTransferFrom = (\<lambda>c from amount bal.
        if amount \<le> bal from
        then Some ((bal(from := bal from - amount))(this := (bal(from := bal from - amount)) this + amount))
        else None)\<rparr>"

definition at :: "address \<Rightarrow> nat \<Rightarrow> env" where
  "at a n = \<lparr>msg_sender = a, block_timestamp = 1000 + 12 * n, block_number = n\<rparr>"

definition funded :: "address \<Rightarrow> nat" where
  "funded = (\<lambda>_. 0)(11 := 1000 * USDC_UNIT, 12 := 1000 * USDC_UNIT, 13 := 1000 * USDC_UNIT)"

definition game1 :: bytes32 where
  "game1 = sampleHash [11, 12, 1012, 1]"

definition staked :: "contract \<times> (address \<Rightarrow> nat)" where
  "staked =
     projr (placeBet (ledgerToken 99) (at 12 3) game1 (50 * USDC_UNIT)
       (projr (placeBet (ledgerToken 99) (at 11 2) game1 (50 * USDC_UNIT)
          (fst (projr (createGame sampleHash (at 11 1) (constructed 1) 12 300 2)), funded))))"


lemma sampleHash_pos [simp]: "0 < sampleHash xs"
  by (simp add: sampleHash_def)

lemmas run_defs = createGame_def placeBet_def at_def constructed_def newBet_def
      ledgerToken_def funded_def gameExists_def gameNotFinished_def onlyGamePlayer_def
      isValidBetAmount_def USDC_UNIT_def TOKEN_DECIMALS_def newGame_def newPool_def addToPool_def
      checked_add_def checked_mul_def UINT256_MAX_def Let_def




lemma staked_game:
  "games (fst staked) game1 =
     (newGame game1 11 12 2 300 1012)\<lparr>g_status := 1, startedAt := 1036\<rparr>"
  by (simp add: staked_def game1_def run_defs)


definition settledWhite :: "contract \<times> (address \<Rightarrow> nat)" where
  "settledWhite =
     (projr (submitGameResult (at 12 5)
        (projr (submitGameResult (at 11 4) (fst staked) game1 0)) game1 0), snd staked)"

lemma staked_rest:
  "pendingPayouts (fst staked) = (\<lambda>_. 0)" "tokenFeeBalance (fst staked) = 0"
  "resultResolved (fst staked) = (\<lambda>_. False)" "resultSubmitted (fst staked) = (\<lambda>_ _. False)"
  "owner (fst staked) = 1" "houseFeePercentage (fst staked) = 500"
  by (simp_all add: staked_def game1_def run_defs)

lemma staked_token: "snd staked = funded(11 := 950 * USDC_UNIT, 12 := 950 * USDC_UNIT, 99 := 100 * USDC_UNIT)"
  by (simp add: staked_def game1_def run_defs fun_eq_iff)

lemmas settle_defs = submitGameResult_def resolveBets_def finishGame_def creditFee_def credit_def
  checked_sub_def upt_0_2 RESULT_DRAW_def RESULT_WHITE_def RESULT_BLACK_def

lemma settledWhite_ledger:
  "pendingPayouts (fst settledWhite) = (\<lambda>_. 0)(11 := 95 * USDC_UNIT)"
  "tokenFeeBalance (fst settledWhite) = 5 * USDC_UNIT"
  by (simp_all add: settledWhite_def staked_def game1_def run_defs settle_defs fun_eq_iff)

lemma settledWhite_bets:
  "gameBets (fst settledWhite) game1 =
     [(newBet game1 11 (50 * USDC_UNIT) 1024)\<lparr>b_status := 0, b_payout := 95 * USDC_UNIT, b_resolvedAt := 1060\<rparr>,
      (newBet game1 12 (50 * USDC_UNIT) 1036)\<lparr>b_status := 1, b_payout := 0, b_resolvedAt := 1060\<rparr>]"
  by (simp add: settledWhite_def staked_def game1_def run_defs settle_defs)

lemma settledWhite_pool:
  "bettingPools (fst settledWhite) game1 =
     \<lparr>p_gameId = game1, p_totalAmount = 100 * USDC_UNIT, p_houseFee = 5 * USDC_UNIT,
      resolved = True, winner = 11\<rparr>"
  by (simp add: settledWhite_def staked_def game1_def run_defs settle_defs)

lemma settledWhite_game:
  "games (fst settledWhite) game1 =
     (newGame game1 11 12 2 300 1012)\<lparr>g_status := 2, g_result := 0, startedAt := 1036, finishedAt := 1060\<rparr>"
  "resultResolved (fst settledWhite) game1"
  by (simp_all add: settledWhite_def staked_def game1_def run_defs settle_defs)


section \<open>Claims\<close>



text \<open>
  C7. After the decisive resolution of a game with two bets, the bet of the winner
  carries the payout (the net pool) and the bet of the loser payout 0, but the status
  codes written are 0 for the winner and 1 for the loser: in the encoding of the
  \<^verbatim>\<open>GameBet\<close> struct (0 pending, 1 won, 2 lost, 3 refunded) the winner's bet reads
  "pending" and the loser's reads "won". The run: accounts 11 and 12 stake 50 USDC each
  and both report a win of white (account 11).
\<close>

theorem decisive_bet_status_codes:
  "gameBets (fst settledWhite) game1 =
     [\<lparr>b_gameId = game1, b_player = 11, b_amount = 50 * USDC_UNIT, b_status = 0,
       b_createdAt = 1024, b_resolvedAt = 1060, b_payout = 95 * USDC_UNIT\<rparr>,
      \<lparr>b_gameId = game1, b_player = 12, b_amount = 50 * USDC_UNIT, b_status = 1,
       b_createdAt = 1036, b_resolvedAt = 1060, b_payout = 0\<rparr>] \<and>
   winner (bettingPools (fst settledWhite) game1) = 11 \<and>
   resolved (bettingPools (fst settledWhite) game1)"
  by (simp add: settledWhite_bets settledWhite_pool newBet_def)

text \<open>
  C4. \<^verbatim>\<open>claimPayout\<close> zeroes the balance of the caller before it calls the token: a
  token that refuses every transfer made while the payee still has a pending balance
  changes nothing. A claim with no pending balance is rejected and leaves the world as it
  was; so does a claim whose transfer fails, and the pending balance is then still there.
  A claim whose transfer succeeds pays exactly the pending balance and leaves it at zero.
\<close>

theorem claimPayout_effects_before_interaction:
  "claimPayout
     (tok\<lparr>safeTransfer :=
        (\<lambda>c a n t. if pendingPayouts c a = 0 then safeTransfer tok c a n t else None)\<rparr>)
     e (s, t) = claimPayout tok e (s, t) \<and>
   (pendingPayouts s (msg_sender e) = 0 \<longrightarrow>
      transact (claimPayout tok e) (s, t) = ((s, t), Some (Require ''No pending payout''))) \<and>
   (0 < pendingPayouts s (msg_sender e) \<and>
    (\<forall>c. safeTransfer tok c (msg_sender e) (pendingPayouts s (msg_sender e)) t = None) \<longrightarrow>
      transact (claimPayout tok e) (s, t) = ((s, t), Some TransferFailed) \<and>
      pendingPayouts (fst (fst (transact (claimPayout tok e) (s, t)))) (msg_sender e)
        = pendingPayouts s (msg_sender e)) \<and>
   (\<forall>s' t'. claimPayout tok e (s, t) = Inr (s', t') \<longrightarrow>
      pendingPayouts s' (msg_sender e) = 0 \<and>
      (\<forall>a. a \<noteq> msg_sender e \<longrightarrow> pendingPayouts s' a = pendingPayouts s a) \<and>
      safeTransfer tok (s\<lparr>pendingPayouts := (pendingPayouts s)(msg_sender e := 0)\<rparr>)
        (msg_sender e) (pendingPayouts s (msg_sender e)) t = Some t')"
  by (auto simp add: claimPayout_def transact_def Let_def require_def split: option.splits)

lemma settledWhite_token:
  "snd settledWhite = funded(11 := 950 * USDC_UNIT, 12 := 950 * USDC_UNIT, 99 := 100 * USDC_UNIT)"
  by (simp add: settledWhite_def staked_token)

theorem claimPayout_effects_before_interaction_witness:
  "transact (claimPayout (ledgerToken 99) (at 12 6)) settledWhite
     = (settledWhite, Some (Require ''No pending payout'')) \<and>
   transact (claimPayout (ledgerToken 99) (at 11 6)) (fst settledWhite, \<lambda>_. 0)
     = ((fst settledWhite, \<lambda>_. 0), Some TransferFailed) \<and>
   pendingPayouts (fst settledWhite) 11 = 95 * USDC_UNIT \<and>
   (\<exists>s'. claimPayout (ledgerToken 99) (at 11 6) settledWhite
            = Inr (s', (snd settledWhite)(99 := 5 * USDC_UNIT, 11 := 1045 * USDC_UNIT)) \<and>
         pendingPayouts s' 11 = 0)"
proof -
  have z: "pendingPayouts (fst settledWhite) (msg_sender (at 12 6)) = 0"
    by (simp add: settledWhite_ledger at_def)
  have p: "0 < pendingPayouts (fst settledWhite) (msg_sender (at 11 6))"
    by (simp add: settledWhite_ledger at_def USDC_UNIT_def)
  have f: "\<forall>c. safeTransfer (ledgerToken 99) c (msg_sender (at 11 6))
              (pendingPayouts (fst settledWhite) (msg_sender (at 11 6))) (\<lambda>_. 0) = None"
    by (simp add: settledWhite_ledger at_def ledgerToken_def USDC_UNIT_def)
  have ok: "claimPayout (ledgerToken 99) (at 11 6) (fst settledWhite, snd settledWhite)
      = Inr (emit (PayoutClaimed 11 (95 * USDC_UNIT))
               ((fst settledWhite)\<lparr>pendingPayouts := (pendingPayouts (fst settledWhite))(11 := 0)\<rparr>),
             (snd settledWhite)(99 := 5 * USDC_UNIT, 11 := 1045 * USDC_UNIT))"
    by (simp add: claimPayout_def settledWhite_ledger at_def ledgerToken_def settledWhite_token
        funded_def USDC_UNIT_def TOKEN_DECIMALS_def fun_eq_iff Let_def)
  from claimPayout_effects_before_interaction
         [of "ledgerToken 99" "at 12 6" "fst settledWhite" "snd settledWhite"] z
  have 1: "transact (claimPayout (ledgerToken 99) (at 12 6)) settledWhite
     = (settledWhite, Some (Require ''No pending payout''))"
    by simp
  from claimPayout_effects_before_interaction
         [of "ledgerToken 99" "at 11 6" "fst settledWhite" "\<lambda>_. 0"] p f
  have 2: "transact (claimPayout (ledgerToken 99) (at 11 6)) (fst settledWhite, \<lambda>_. 0)
     = ((fst settledWhite, \<lambda>_. 0), Some TransferFailed)"
    by blast
  from claimPayout_effects_before_interaction
         [of "ledgerToken 99" "at 11 6" "fst settledWhite" "snd settledWhite"] ok
  have 3: "\<exists>s'. claimPayout (ledgerToken 99) (at 11 6) settledWhite
            = Inr (s', (snd settledWhite)(99 := 5 * USDC_UNIT, 11 := 1045 * USDC_UNIT)) \<and>
         pendingPayouts s' 11 = 0"
    by (simp add: at_def)
  from 1 2 3 show ?thesis
    by (simp add: settledWhite_ledger)
qed

lemma finishGame_proj [simp]:
  "games (finishGame e g r s) =
     (games s)(g := (games s g)\<lparr>g_status := 2, g_result := r, finishedAt := block_timestamp e\<rparr>)"
  "resultResolved (finishGame e g r s) = (resultResolved s)(g := True)"
  "resultFinal (finishGame e g r s) = (resultFinal s)(g := r)"
  "gameBets (finishGame e g r s) = gameBets s"
  "bettingPools (finishGame e g r s) = bettingPools s"
  "pendingPayouts (finishGame e g r s) = pendingPayouts s"
  "tokenFeeBalance (finishGame e g r s) = tokenFeeBalance s"
  by (simp_all add: finishGame_def)

text \<open>
  A pool that \<^verbatim>\<open>_resolveBets\<close> can settle with any result: two bets, not yet resolved,
  and none of the checked additions and subtractions of the settlement can overflow.
\<close>

definition resolvable :: "contract \<Rightarrow> bytes32 \<Rightarrow> bool" where
  "resolvable s g =
     (case gameBets s g of
        [b1, b2] \<Rightarrow>
          \<not> resolved (bettingPools s g) \<and>
          p_houseFee (bettingPools s g) \<le> p_totalAmount (bettingPools s g) \<and>
          tokenFeeBalance s + p_houseFee (bettingPools s g) \<le> UINT256_MAX \<and>
          list_all (\<lambda>x. pendingPayouts s x + 2 * p_totalAmount (bettingPools s g)
                          + b_amount b1 + b_amount b2 \<le> UINT256_MAX)
            [whitePlayer (games s g), blackPlayer (games s g), b_player b1, b_player b2]
      | _ \<Rightarrow> False)"

lemma resolvable_resolveBets:
  assumes "resolvable s g" and bets: "gameBets s g = [b1, b2]" and "r \<le> 2"
    and same: "gameBets s1 = gameBets s" "bettingPools s1 = bettingPools s"
      "pendingPayouts s1 = pendingPayouts s" "tokenFeeBalance s1 = tokenFeeBalance s"
      "whitePlayer (games s1 g) = whitePlayer (games s g)"
      "blackPlayer (games s1 g) = blackPlayer (games s g)"
    and w: "w = (if r = RESULT_WHITE then whitePlayer (games s g) else blackPlayer (games s g))"
    and n: "n = p_totalAmount (bettingPools s g) - p_houseFee (bettingPools s g)"
  shows "\<exists>s'. resolveBets e s1 g r = Inr s' \<and> games s' = games s1 \<and>
           resultResolved s' = resultResolved s1 \<and> resultFinal s' = resultFinal s1 \<and>
           resolved (bettingPools s' g) \<and>
           winner (bettingPools s' g) = (if r = RESULT_DRAW then 0 else w) \<and>
           (\<forall>x. pendingPayouts s' x = pendingPayouts s x +
              (if r = RESULT_DRAW
               then (if x = b_player b1 then b_amount b1 else 0)
                    + (if x = b_player b2 then b_amount b2 else 0)
               else (if b_player b1 = w \<and> x = w then n else 0)
                    + (if b_player b2 = w \<and> x = w then n else 0))) \<and>
           tokenFeeBalance s' = tokenFeeBalance s
              + (if r = RESULT_DRAW then 0 else p_houseFee (bettingPools s g))"
proof -
  from assms(1) bets have unres: "\<not> resolved (bettingPools s g)"
    and fee: "p_houseFee (bettingPools s g) \<le> p_totalAmount (bettingPools s g)"
    and tf: "tokenFeeBalance s + p_houseFee (bettingPools s g) \<le> UINT256_MAX"
    and pw: "pendingPayouts s (whitePlayer (games s g)) + 2 * p_totalAmount (bettingPools s g)
               + b_amount b1 + b_amount b2 \<le> UINT256_MAX"
    and pb: "pendingPayouts s (blackPlayer (games s g)) + 2 * p_totalAmount (bettingPools s g)
               + b_amount b1 + b_amount b2 \<le> UINT256_MAX"
    and p1: "pendingPayouts s (b_player b1) + 2 * p_totalAmount (bettingPools s g)
               + b_amount b1 + b_amount b2 \<le> UINT256_MAX"
    and p2: "pendingPayouts s (b_player b2) + 2 * p_totalAmount (bettingPools s g)
               + b_amount b1 + b_amount b2 \<le> UINT256_MAX"
    by (simp_all add: resolvable_def)
  show ?thesis
  proof (cases "r = RESULT_DRAW")
    case True
    have "\<exists>s'. resolveBets e s1 g RESULT_DRAW = Inr s' \<and>
           (\<forall>x. pendingPayouts s' x = pendingPayouts s1 x
                  + (if x = b_player b1 then b_amount b1 else 0)
                  + (if x = b_player b2 then b_amount b2 else 0)) \<and>
           gameBets s' g = [b1\<lparr>b_status := 3, b_payout := b_amount b1, b_resolvedAt := block_timestamp e\<rparr>,
                            b2\<lparr>b_status := 3, b_payout := b_amount b2, b_resolvedAt := block_timestamp e\<rparr>] \<and>
           winner (bettingPools s' g) = 0 \<and> resolved (bettingPools s' g) \<and>
           p_houseFee (bettingPools s' g) = 0 \<and>
           tokenFeeBalance s' = tokenFeeBalance s1 \<and> games s' = games s1 \<and>
           resultResolved s' = resultResolved s1 \<and> resultFinal s' = resultFinal s1"
      using bets unres p1 p2 same by (intro resolveBets_draw) simp_all
    then obtain s' where "resolveBets e s1 g RESULT_DRAW = Inr s'"
      "\<forall>x. pendingPayouts s' x = pendingPayouts s1 x
                  + (if x = b_player b1 then b_amount b1 else 0)
                  + (if x = b_player b2 then b_amount b2 else 0)"
      "winner (bettingPools s' g) = 0" "resolved (bettingPools s' g)"
      "tokenFeeBalance s' = tokenFeeBalance s1" "games s' = games s1"
      "resultResolved s' = resultResolved s1" "resultFinal s' = resultFinal s1"
      by blast
    with True same show ?thesis by (simp add: add.assoc)
  next
    case False
    have w1: "w = (if r = RESULT_WHITE then whitePlayer (games s1 g) else blackPlayer (games s1 g))"
      using w same by simp
    have n1: "n = p_totalAmount (bettingPools s1 g) - p_houseFee (bettingPools s1 g)"
      using n same by simp
    have "pendingPayouts s1 w + 2 * n \<le> UINT256_MAX"
      using pw pb same by (auto simp add: w n)
    with bets unres fee tf same False w1 n1
    have "\<exists>s'. resolveBets e s1 g r = Inr s' \<and>
           (\<forall>x. pendingPayouts s' x = pendingPayouts s1 x
                  + (if b_player b1 = w \<and> x = w then n else 0)
                  + (if b_player b2 = w \<and> x = w then n else 0)) \<and>
           gameBets s' g = [settle w n (block_timestamp e) b1, settle w n (block_timestamp e) b2] \<and>
           winner (bettingPools s' g) = w \<and> resolved (bettingPools s' g) \<and>
           p_houseFee (bettingPools s' g) = p_houseFee (bettingPools s1 g) \<and>
           p_totalAmount (bettingPools s' g) = p_totalAmount (bettingPools s1 g) \<and>
           tokenFeeBalance s' = tokenFeeBalance s1 + p_houseFee (bettingPools s1 g) \<and>
           games s' = games s1 \<and>
           resultResolved s' = resultResolved s1 \<and> resultFinal s' = resultFinal s1"
      by (intro resolveBets_decisive) simp_all
    then obtain s' where "resolveBets e s1 g r = Inr s'"
      "\<forall>x. pendingPayouts s' x = pendingPayouts s1 x
                  + (if b_player b1 = w \<and> x = w then n else 0)
                  + (if b_player b2 = w \<and> x = w then n else 0)"
      "winner (bettingPools s' g) = w" "resolved (bettingPools s' g)"
      "tokenFeeBalance s' = tokenFeeBalance s1 + p_houseFee (bettingPools s1 g)"
      "games s' = games s1"
      "resultResolved s' = resultResolved s1" "resultFinal s' = resultFinal s1"
      by blast
    with False same show ?thesis by (simp add: add.assoc)
  qed
qed


lemma game1_pos [simp]: "0 < game1"
  by (simp add: game1_def)

text \<open>The sample game after a dispute: account 11 reports a win of white, account 12 of black.\<close>

definition disputed :: contract where
  "disputed =
     projr (submitGameResult (at 12 5)
       (projr (submitGameResult (at 11 4) (fst staked) game1 0)) game1 1)"

lemma disputed_votes:
  "resultSubmitted disputed game1 11" "resultSubmitted disputed game1 12"
  "resultValue disputed game1 11 = 0" "resultValue disputed game1 12 = 1"
  "\<not> resultResolved disputed game1" "owner disputed = 1"
  by (simp_all add: disputed_def staked_def game1_def run_defs settle_defs)

lemma disputed_game:
  "games disputed game1 = (newGame game1 11 12 2 300 1012)\<lparr>g_status := 1, startedAt := 1036\<rparr>"
  by (simp add: disputed_def staked_def game1_def run_defs settle_defs)

lemma disputed_pool:
  "gameBets disputed game1 =
     [newBet game1 11 (50 * USDC_UNIT) 1024, newBet game1 12 (50 * USDC_UNIT) 1036]"
  "bettingPools disputed game1 =
     \<lparr>p_gameId = game1, p_totalAmount = 100 * USDC_UNIT, p_houseFee = 5 * USDC_UNIT,
      resolved = False, winner = 0\<rparr>"
  "pendingPayouts disputed = (\<lambda>_. 0)" "tokenFeeBalance disputed = 0"
  by (simp_all add: disputed_def staked_def game1_def run_defs settle_defs)

text \<open>
  A dispute without stakes: account 11 creates the game against 12 and starts it with
  \<^verbatim>\<open>startGame\<close> before anybody has staked; then 11 reports a win of white and 12 a
  win of black.
\<close>

definition unstaked :: contract where
  "unstaked =
     projr (submitGameResult (at 12 5)
       (projr (submitGameResult (at 11 4)
          (projr (startGame (at 11 2)
             (fst (projr (createGame sampleHash (at 11 1) (constructed 1) 12 300 2))) game1))
          game1 0))
       game1 1)"

lemma unstaked_facts:
  "resultSubmitted unstaked game1 11" "resultSubmitted unstaked game1 12"
  "\<not> resultResolved unstaked game1" "owner unstaked = 1"
  "games unstaked game1 = (newGame game1 11 12 2 300 1012)\<lparr>g_status := 1, startedAt := 1024\<rparr>"
  "gameBets unstaked game1 = []" "\<not> resolved (bettingPools unstaked game1)"
  by (simp_all add: unstaked_def startGame_def game1_def run_defs settle_defs)

text \<open>
  C8, as stated, fails: in the dispute without stakes both participants have voted, the
  game is active and unresolved and the caller is the owner, yet the override is rejected
  for each of the three results, because the pool does not hold exactly two bets.
\<close>

theorem override_without_stakes_counterexample:
  "resultSubmitted unstaked game1 (whitePlayer (games unstaked game1)) \<and>
   resultSubmitted unstaked game1 (blackPlayer (games unstaked game1)) \<and>
   g_status (games unstaked game1) = 1 \<and> g_id (games unstaked game1) \<noteq> 0 \<and>
   \<not> resultResolved unstaked game1 \<and> msg_sender (at 1 6) = owner unstaked \<and>
   resolveDisputedGame (at 1 6) unstaked game1 0 = Inl (Require ''Must have exactly 2 bets'') \<and>
   resolveDisputedGame (at 1 6) unstaked game1 1 = Inl (Require ''Must have exactly 2 bets'') \<and>
   resolveDisputedGame (at 1 6) unstaked game1 2 = Inl (Require ''Must have exactly 2 bets'')"
  using unstaked_facts
  by (simp add: resolveDisputedGame_def resolveBets_def onlyOwner_def gameExists_def newGame_def
      at_def)

text \<open>
  C8, amended. The administrative override is rejected, with no change of state, unless
  both participants have submitted a vote; it is also rejected, for every result, when
  the pool of the game does not hold exactly two bets (a game started with
  \<^verbatim>\<open>startGame\<close> before both have staked). When both have voted, whatever the two votes
  are, the owner forces any of the three results on an active, unresolved game whose
  pool holds two bets and can be settled without overflow: the game is finished with that
  result and the pool is settled for it. A draw refunds each stake to its owner and
  charges no fee; a decisive result credits the net pool to the forced winner for each
  bet the winner owns and the fee to the fee accumulator.
\<close>

theorem override_after_both_votes:
  "(\<not> (resultSubmitted s g (whitePlayer (games s g)) \<and>
        resultSubmitted s g (blackPlayer (games s g))) \<or>
    length (gameBets s g) \<noteq> 2 \<longrightarrow>
      (\<exists>err. transact (\<lambda>s. resolveDisputedGame e s g r) s = (s, Some err))) \<and>
   (resultSubmitted s g (whitePlayer (games s g)) \<and>
    resultSubmitted s g (blackPlayer (games s g)) \<and>
    msg_sender e = owner s \<and> g_id (games s g) \<noteq> 0 \<and> r \<le> 2 \<and>
    \<not> resultResolved s g \<and> g_status (games s g) = 1 \<and>
    gameBets s g = [b1, b2] \<and> resolvable s g \<and>
    w = (if r = RESULT_WHITE then whitePlayer (games s g) else blackPlayer (games s g)) \<and>
    n = p_totalAmount (bettingPools s g) - p_houseFee (bettingPools s g) \<longrightarrow>
      (\<exists>s'. resolveDisputedGame e s g r = Inr s' \<and>
            g_status (games s' g) = 2 \<and> g_result (games s' g) = r \<and>
            resultFinal s' g = r \<and> resultResolved s' g \<and>
            resolved (bettingPools s' g) \<and>
            winner (bettingPools s' g) = (if r = RESULT_DRAW then 0 else w) \<and>
            (\<forall>x. pendingPayouts s' x = pendingPayouts s x +
               (if r = RESULT_DRAW
                then (if x = b_player b1 then b_amount b1 else 0)
                     + (if x = b_player b2 then b_amount b2 else 0)
                else (if b_player b1 = w \<and> x = w then n else 0)
                     + (if b_player b2 = w \<and> x = w then n else 0))) \<and>
            tokenFeeBalance s' = tokenFeeBalance s
               + (if r = RESULT_DRAW then 0 else p_houseFee (bettingPools s g))))"
proof (intro conjI impI)
  assume "\<not> (resultSubmitted s g (whitePlayer (games s g)) \<and>
        resultSubmitted s g (blackPlayer (games s g))) \<or> length (gameBets s g) \<noteq> 2"
  then show "\<exists>err. transact (\<lambda>s. resolveDisputedGame e s g r) s = (s, Some err)"
    by (auto simp add: resolveDisputedGame_def resolveBets_def transact_def onlyOwner_def
        gameExists_def require_def)
next
  assume a: "resultSubmitted s g (whitePlayer (games s g)) \<and>
    resultSubmitted s g (blackPlayer (games s g)) \<and>
    msg_sender e = owner s \<and> g_id (games s g) \<noteq> 0 \<and> r \<le> 2 \<and>
    \<not> resultResolved s g \<and> g_status (games s g) = 1 \<and>
    gameBets s g = [b1, b2] \<and> resolvable s g \<and>
    w = (if r = RESULT_WHITE then whitePlayer (games s g) else blackPlayer (games s g)) \<and>
    n = p_totalAmount (bettingPools s g) - p_houseFee (bettingPools s g)"
  then have h: "resolvable s g" "gameBets s g = [b1, b2]" "r \<le> 2"
    and w: "w = (if r = RESULT_WHITE then whitePlayer (games s g) else blackPlayer (games s g))"
    and n: "n = p_totalAmount (bettingPools s g) - p_houseFee (bettingPools s g)"
    by simp_all
  have "\<exists>s'. resolveBets e (finishGame e g r s) g r = Inr s' \<and>
           games s' = games (finishGame e g r s) \<and>
           resultResolved s' = resultResolved (finishGame e g r s) \<and>
           resultFinal s' = resultFinal (finishGame e g r s) \<and>
           resolved (bettingPools s' g) \<and>
           winner (bettingPools s' g) = (if r = RESULT_DRAW then 0 else w) \<and>
           (\<forall>x. pendingPayouts s' x = pendingPayouts s x +
              (if r = RESULT_DRAW
               then (if x = b_player b1 then b_amount b1 else 0)
                    + (if x = b_player b2 then b_amount b2 else 0)
               else (if b_player b1 = w \<and> x = w then n else 0)
                    + (if b_player b2 = w \<and> x = w then n else 0))) \<and>
           tokenFeeBalance s' = tokenFeeBalance s
              + (if r = RESULT_DRAW then 0 else p_houseFee (bettingPools s g))"
    using h w n by (intro resolvable_resolveBets) simp_all
  then obtain s1 where r1: "resolveBets e (finishGame e g r s) g r = Inr s1"
    and k: "games s1 = games (finishGame e g r s)"
      "resultResolved s1 = resultResolved (finishGame e g r s)"
      "resultFinal s1 = resultFinal (finishGame e g r s)"
      "resolved (bettingPools s1 g)"
      "winner (bettingPools s1 g) = (if r = RESULT_DRAW then 0 else w)"
      "\<forall>x. pendingPayouts s1 x = pendingPayouts s x +
              (if r = RESULT_DRAW
               then (if x = b_player b1 then b_amount b1 else 0)
                    + (if x = b_player b2 then b_amount b2 else 0)
               else (if b_player b1 = w \<and> x = w then n else 0)
                    + (if b_player b2 = w \<and> x = w then n else 0))"
      "tokenFeeBalance s1 = tokenFeeBalance s
              + (if r = RESULT_DRAW then 0 else p_houseFee (bettingPools s g))"
    by blast
  have "resolveDisputedGame e s g r = Inr (emit (GameFinished g r) s1)"
    using a r1 by (simp add: resolveDisputedGame_def onlyOwner_def gameExists_def)
  moreover have "g_status (games (emit (GameFinished g r) s1) g) = 2"
    "g_result (games (emit (GameFinished g r) s1) g) = r"
    "resultFinal (emit (GameFinished g r) s1) g = r"
    "resultResolved (emit (GameFinished g r) s1) g"
    "resolved (bettingPools (emit (GameFinished g r) s1) g)"
    "winner (bettingPools (emit (GameFinished g r) s1) g) = (if r = RESULT_DRAW then 0 else w)"
    "tokenFeeBalance (emit (GameFinished g r) s1) = tokenFeeBalance s
              + (if r = RESULT_DRAW then 0 else p_houseFee (bettingPools s g))"
    using k by simp_all
  moreover have "\<forall>x. pendingPayouts (emit (GameFinished g r) s1) x = pendingPayouts s x +
              (if r = RESULT_DRAW
               then (if x = b_player b1 then b_amount b1 else 0)
                    + (if x = b_player b2 then b_amount b2 else 0)
               else (if b_player b1 = w \<and> x = w then n else 0)
                    + (if b_player b2 = w \<and> x = w then n else 0))"
    using k(6) by simp
  ultimately show "\<exists>s'. resolveDisputedGame e s g r = Inr s' \<and>
            g_status (games s' g) = 2 \<and> g_result (games s' g) = r \<and>
            resultFinal s' g = r \<and> resultResolved s' g \<and>
            resolved (bettingPools s' g) \<and>
            winner (bettingPools s' g) = (if r = RESULT_DRAW then 0 else w) \<and>
            (\<forall>x. pendingPayouts s' x = pendingPayouts s x +
               (if r = RESULT_DRAW
                then (if x = b_player b1 then b_amount b1 else 0)
                     + (if x = b_player b2 then b_amount b2 else 0)
                else (if b_player b1 = w \<and> x = w then n else 0)
                     + (if b_player b2 = w \<and> x = w then n else 0))) \<and>
            tokenFeeBalance s' = tokenFeeBalance s
               + (if r = RESULT_DRAW then 0 else p_houseFee (bettingPools s g))"
    by blast
qed


theorem override_after_both_votes_witness:
  "(\<exists>err. transact (\<lambda>s. resolveDisputedGame (at 1 6) s game1 0) (fst staked)
            = (fst staked, Some err)) \<and>
   (\<exists>err. transact (\<lambda>s. resolveDisputedGame (at 1 6) s game1 0) unstaked
            = (unstaked, Some err)) \<and>
   resultValue disputed game1 11 \<noteq> resultValue disputed game1 12 \<and>
   (\<exists>s'. resolveDisputedGame (at 1 6) disputed game1 1 = Inr s' \<and>
         g_status (games s' game1) = 2 \<and> g_result (games s' game1) = 1 \<and>
         resolved (bettingPools s' game1) \<and> winner (bettingPools s' game1) = 12 \<and>
         pendingPayouts s' 11 = 0 \<and> pendingPayouts s' 12 = 95 * USDC_UNIT \<and>
         tokenFeeBalance s' = 5 * USDC_UNIT) \<and>
   (\<exists>s'. resolveDisputedGame (at 1 6) disputed game1 2 = Inr s' \<and>
         g_status (games s' game1) = 2 \<and> g_result (games s' game1) = 2 \<and>
         resolved (bettingPools s' game1) \<and> winner (bettingPools s' game1) = 0 \<and>
         pendingPayouts s' 11 = 50 * USDC_UNIT \<and> pendingPayouts s' 12 = 50 * USDC_UNIT \<and>
         tokenFeeBalance s' = 0)"
proof -
  let ?b1 = "newBet game1 11 (50 * USDC_UNIT) 1024"
  let ?b2 = "newBet game1 12 (50 * USDC_UNIT) 1036"
  have n: "\<not> (resultSubmitted (fst staked) game1 (whitePlayer (games (fst staked) game1)) \<and>
        resultSubmitted (fst staked) game1 (blackPlayer (games (fst staked) game1))) \<or>
        length (gameBets (fst staked) game1) \<noteq> 2"
    by (simp add: staked_rest)
  have u: "\<not> (resultSubmitted unstaked game1 (whitePlayer (games unstaked game1)) \<and>
        resultSubmitted unstaked game1 (blackPlayer (games unstaked game1))) \<or>
        length (gameBets unstaked game1) \<noteq> 2"
    by (simp add: unstaked_facts)
  have r: "resolvable disputed game1"
    by (simp add: resolvable_def disputed_pool disputed_game newBet_def newGame_def
        USDC_UNIT_def TOKEN_DECIMALS_def UINT256_MAX_def)
  have y: "resultSubmitted disputed game1 (whitePlayer (games disputed game1)) \<and>
    resultSubmitted disputed game1 (blackPlayer (games disputed game1)) \<and>
    msg_sender (at 1 6) = owner disputed \<and> g_id (games disputed game1) \<noteq> 0 \<and>
    \<not> resultResolved disputed game1 \<and> g_status (games disputed game1) = 1 \<and>
    gameBets disputed game1 = [?b1, ?b2]"
    by (simp add: disputed_votes disputed_game disputed_pool newGame_def at_def)
  from override_after_both_votes [of "fst staked" game1 "at 1 6" 0] n
  have 1: "\<exists>err. transact (\<lambda>s. resolveDisputedGame (at 1 6) s game1 0) (fst staked)
            = (fst staked, Some err)"
    by blast
  from override_after_both_votes [of unstaked game1 "at 1 6" 0] u
  have 2: "\<exists>err. transact (\<lambda>s. resolveDisputedGame (at 1 6) s game1 0) unstaked
            = (unstaked, Some err)"
    by blast
  have "\<exists>s'. resolveDisputedGame (at 1 6) disputed game1 1 = Inr s' \<and>
            g_status (games s' game1) = 2 \<and> g_result (games s' game1) = 1 \<and>
            resultFinal s' game1 = 1 \<and> resultResolved s' game1 \<and>
            resolved (bettingPools s' game1) \<and>
            winner (bettingPools s' game1) = (if (1::nat) = RESULT_DRAW then 0 else 12) \<and>
            (\<forall>x. pendingPayouts s' x = pendingPayouts disputed x +
               (if (1::nat) = RESULT_DRAW
                then (if x = b_player ?b1 then b_amount ?b1 else 0)
                     + (if x = b_player ?b2 then b_amount ?b2 else 0)
                else (if b_player ?b1 = 12 \<and> x = 12 then 95 * USDC_UNIT else 0)
                     + (if b_player ?b2 = 12 \<and> x = 12 then 95 * USDC_UNIT else 0))) \<and>
            tokenFeeBalance s' = tokenFeeBalance disputed
               + (if (1::nat) = RESULT_DRAW then 0 else p_houseFee (bettingPools disputed game1))"
    using override_after_both_votes [of disputed game1 "at 1 6" 1 ?b1 ?b2 12 "95 * USDC_UNIT"] y r
    by (simp add: disputed_game disputed_pool newGame_def RESULT_WHITE_def USDC_UNIT_def
        TOKEN_DECIMALS_def)
  then have 3: "\<exists>s'. resolveDisputedGame (at 1 6) disputed game1 1 = Inr s' \<and>
         g_status (games s' game1) = 2 \<and> g_result (games s' game1) = 1 \<and>
         resolved (bettingPools s' game1) \<and> winner (bettingPools s' game1) = 12 \<and>
         pendingPayouts s' 11 = 0 \<and> pendingPayouts s' 12 = 95 * USDC_UNIT \<and>
         tokenFeeBalance s' = 5 * USDC_UNIT"
    by (auto simp add: disputed_pool newBet_def RESULT_DRAW_def)
  have "\<exists>s'. resolveDisputedGame (at 1 6) disputed game1 2 = Inr s' \<and>
            g_status (games s' game1) = 2 \<and> g_result (games s' game1) = 2 \<and>
            resultFinal s' game1 = 2 \<and> resultResolved s' game1 \<and>
            resolved (bettingPools s' game1) \<and>
            winner (bettingPools s' game1) = (if (2::nat) = RESULT_DRAW then 0 else 12) \<and>
            (\<forall>x. pendingPayouts s' x = pendingPayouts disputed x +
               (if (2::nat) = RESULT_DRAW
                then (if x = b_player ?b1 then b_amount ?b1 else 0)
                     + (if x = b_player ?b2 then b_amount ?b2 else 0)
                else (if b_player ?b1 = 12 \<and> x = 12 then 95 * USDC_UNIT else 0)
                     + (if b_player ?b2 = 12 \<and> x = 12 then 95 * USDC_UNIT else 0))) \<and>
            tokenFeeBalance s' = tokenFeeBalance disputed
               + (if (2::nat) = RESULT_DRAW then 0 else p_houseFee (bettingPools disputed game1))"
    using override_after_both_votes [of disputed game1 "at 1 6" 2 ?b1 ?b2 12 "95 * USDC_UNIT"] y r
    by (simp add: disputed_game disputed_pool newGame_def RESULT_WHITE_def USDC_UNIT_def
        TOKEN_DECIMALS_def)
  then have 4: "\<exists>s'. resolveDisputedGame (at 1 6) disputed game1 2 = Inr s' \<and>
         g_status (games s' game1) = 2 \<and> g_result (games s' game1) = 2 \<and>
         resolved (bettingPools s' game1) \<and> winner (bettingPools s' game1) = 0 \<and>
         pendingPayouts s' 11 = 50 * USDC_UNIT \<and> pendingPayouts s' 12 = 50 * USDC_UNIT \<and>
         tokenFeeBalance s' = 0"
    by (auto simp add: disputed_pool newBet_def RESULT_DRAW_def)
  from 1 2 3 4 show ?thesis
    by (simp add: disputed_votes)
qed

text \<open>A driver: \<open>n\<close> calls of \<^verbatim>\<open>makeMove\<close> in a row with the same move.\<close>

fun repeatMove :: "nat \<Rightarrow> env \<Rightarrow> bytes32 \<Rightarrow> string \<Rightarrow> contract \<Rightarrow> error + contract" where
  "repeatMove 0 e g mv s = Inr s"
| "repeatMove (Suc n) e g mv s = bnd (makeMove e s g mv) (repeatMove n e g mv)"

text \<open>The sample game after white has sent 200 moves.\<close>

definition capped :: contract where
  "capped = projr (repeatMove 200 (at 11 7) game1 ''e4'' (fst staked))"

lemma makeMove_accepted:
  assumes "g_id (games s g) \<noteq> 0"
    and "msg_sender e = whitePlayer (games s g) \<or> msg_sender e = blackPlayer (games s g)"
    and "g_status (games s g) = 1" and "length mv \<le> MAX_MOVE_BYTES"
  shows "\<exists>s'. makeMove e s g mv = Inr s' \<and>
           g_id (games s' g) = g_id (games s g) \<and>
           whitePlayer (games s' g) = whitePlayer (games s g) \<and>
           blackPlayer (games s' g) = blackPlayer (games s g) \<and>
           g_status (games s' g) = 1 \<and>
           moveCount (games s' g) =
             (if moveCount (games s g) < MAX_MOVES then moveCount (games s g) + 1
              else moveCount (games s g)) \<and>
           (MAX_MOVES \<le> moveCount (games s g) \<longrightarrow> s' = emit (MoveMade g mv) s)"
  using assms
  by (auto simp add: makeMove_def gameExists_def onlyGamePlayer_def Let_def)

lemma repeatMove_counts:
  assumes "g_id (games s g) \<noteq> 0"
    and "msg_sender e = whitePlayer (games s g) \<or> msg_sender e = blackPlayer (games s g)"
    and "g_status (games s g) = 1" and "length mv \<le> MAX_MOVE_BYTES"
    and "moveCount (games s g) + n \<le> MAX_MOVES"
  shows "\<exists>s'. repeatMove n e g mv s = Inr s' \<and>
           g_id (games s' g) = g_id (games s g) \<and>
           whitePlayer (games s' g) = whitePlayer (games s g) \<and>
           blackPlayer (games s' g) = blackPlayer (games s g) \<and>
           g_status (games s' g) = 1 \<and>
           moveCount (games s' g) = moveCount (games s g) + n"
  using assms
proof (induction n arbitrary: s)
  case 0
  then show ?case by simp
next
  case (Suc n)
  from makeMove_accepted [OF Suc.prems(1-4)] Suc.prems(5)
  obtain s1 where m: "makeMove e s g mv = Inr s1"
    and k: "g_id (games s1 g) = g_id (games s g)"
      "whitePlayer (games s1 g) = whitePlayer (games s g)"
      "blackPlayer (games s1 g) = blackPlayer (games s g)"
      "g_status (games s1 g) = 1"
      "moveCount (games s1 g) = moveCount (games s g) + 1"
    by auto
  have "\<exists>s'. repeatMove n e g mv s1 = Inr s' \<and>
           g_id (games s' g) = g_id (games s1 g) \<and>
           whitePlayer (games s' g) = whitePlayer (games s1 g) \<and>
           blackPlayer (games s' g) = blackPlayer (games s1 g) \<and>
           g_status (games s' g) = 1 \<and>
           moveCount (games s' g) = moveCount (games s1 g) + n"
    using Suc.prems k by (intro Suc.IH) simp_all
  with m k show ?case by auto
qed

lemma capped_game:
  "g_id (games capped game1) \<noteq> 0" "whitePlayer (games capped game1) = 11"
  "blackPlayer (games capped game1) = 12" "g_status (games capped game1) = 1"
  "moveCount (games capped game1) = 200"
proof -
  have "\<exists>s'. repeatMove 200 (at 11 7) game1 ''e4'' (fst staked) = Inr s' \<and>
           g_id (games s' game1) = g_id (games (fst staked) game1) \<and>
           whitePlayer (games s' game1) = whitePlayer (games (fst staked) game1) \<and>
           blackPlayer (games s' game1) = blackPlayer (games (fst staked) game1) \<and>
           g_status (games s' game1) = 1 \<and>
           moveCount (games s' game1) = moveCount (games (fst staked) game1) + 200"
    by (intro repeatMove_counts) (simp_all add: staked_game newGame_def at_def MAX_MOVE_BYTES_def MAX_MOVES_def)
  then show "g_id (games capped game1) \<noteq> 0" "whitePlayer (games capped game1) = 11"
    "blackPlayer (games capped game1) = 12" "g_status (games capped game1) = 1"
    "moveCount (games capped game1) = 200"
    by (auto simp add: capped_def staked_game newGame_def)
qed

text \<open>
  C9, as stated, fails: the sample game has reached the cap of 200 stored moves, and the
  next move of a participant is not an error. The call succeeds and only emits its event.
\<close>

theorem move_after_cap_counterexample:
  "moveCount (games capped game1) = MAX_MOVES \<and>
   makeMove (at 12 8) capped game1 ''e5'' = Inr (emit (MoveMade game1 ''e5'') capped)"
proof -
  from makeMove_accepted [of capped game1 "at 12 8" "''e5''"]
  show ?thesis
    by (auto simp add: capped_game at_def MAX_MOVE_BYTES_def MAX_MOVES_def)
qed

text \<open>
  C9, amended. A move longer than 16 bytes is an error and changes nothing; so is a move
  on a game that is not active. A move that arrives once 200 moves are stored is not an
  error: the call of a participant succeeds, emits \<^verbatim>\<open>MoveMade\<close> and leaves the storage
  (move log and move count included) as it was.
\<close>

theorem makeMove_caps:
  "(MAX_MOVE_BYTES < length mv \<or> g_status (games s g) \<noteq> 1 \<longrightarrow>
      (\<exists>err. transact (\<lambda>s. makeMove e s g mv) s = (s, Some err))) \<and>
   (MAX_MOVES \<le> moveCount (games s g) \<longrightarrow>
      (\<forall>s'. makeMove e s g mv = Inr s' \<longrightarrow> s' = s\<lparr>events := events s @ [MoveMade g mv]\<rparr>)) \<and>
   (MAX_MOVES \<le> moveCount (games s g) \<and> g_id (games s g) \<noteq> 0 \<and>
    (msg_sender e = whitePlayer (games s g) \<or> msg_sender e = blackPlayer (games s g)) \<and>
    g_status (games s g) = 1 \<and> length mv \<le> MAX_MOVE_BYTES \<longrightarrow>
      makeMove e s g mv = Inr (s\<lparr>events := events s @ [MoveMade g mv]\<rparr>))"
  by (auto simp add: makeMove_def gameExists_def onlyGamePlayer_def Let_def transact_def
      require_def emit_def)

theorem makeMove_caps_witness:
  "(\<exists>err. transact (\<lambda>s. makeMove (at 11 7) s game1 ''Qh4xe1#-far-too-long'') (fst staked)
           = (fst staked, Some err)) \<and>
   (\<exists>err. transact (\<lambda>s. makeMove (at 11 7) s game1 ''e4'') (fst settledWhite)
           = (fst settledWhite, Some err)) \<and>
   makeMove (at 12 8) capped game1 ''e5''
     = Inr (capped\<lparr>events := events capped @ [MoveMade game1 ''e5'']\<rparr>)"
proof -
  have "MAX_MOVE_BYTES < length ''Qh4xe1#-far-too-long'' \<or> g_status (games (fst staked) game1) \<noteq> 1 \<longrightarrow>
      (\<exists>err. transact (\<lambda>s. makeMove (at 11 7) s game1 ''Qh4xe1#-far-too-long'') (fst staked)
           = (fst staked, Some err))"
    using makeMove_caps [of "''Qh4xe1#-far-too-long''" "fst staked" game1 "at 11 7"]
    by (rule conjunct1)
  then have 1: "\<exists>err. transact (\<lambda>s. makeMove (at 11 7) s game1 ''Qh4xe1#-far-too-long'') (fst staked)
           = (fst staked, Some err)"
    by (simp add: MAX_MOVE_BYTES_def)
  have "MAX_MOVE_BYTES < length ''e4'' \<or> g_status (games (fst settledWhite) game1) \<noteq> 1 \<longrightarrow>
      (\<exists>err. transact (\<lambda>s. makeMove (at 11 7) s game1 ''e4'') (fst settledWhite)
           = (fst settledWhite, Some err))"
    using makeMove_caps [of "''e4''" "fst settledWhite" game1 "at 11 7"]
    by (rule conjunct1)
  then have 2: "\<exists>err. transact (\<lambda>s. makeMove (at 11 7) s game1 ''e4'') (fst settledWhite)
           = (fst settledWhite, Some err)"
    by (simp add: settledWhite_game)
  have "MAX_MOVES \<le> moveCount (games capped game1) \<and> g_id (games capped game1) \<noteq> 0 \<and>
    (msg_sender (at 12 8) = whitePlayer (games capped game1) \<or>
     msg_sender (at 12 8) = blackPlayer (games capped game1)) \<and>
    g_status (games capped game1) = 1 \<and> length ''e5'' \<le> MAX_MOVE_BYTES \<longrightarrow>
      makeMove (at 12 8) capped game1 ''e5''
        = Inr (capped\<lparr>events := events capped @ [MoveMade game1 ''e5'']\<rparr>)"
    using makeMove_caps [of "''e5''" capped game1 "at 12 8"]
    by blast
  then have 3: "makeMove (at 12 8) capped game1 ''e5''
     = Inr (capped\<lparr>events := events capped @ [MoveMade game1 ''e5'']\<rparr>)"
    using capped_game by (simp add: at_def MAX_MOVE_BYTES_def MAX_MOVES_def)
  from 1 2 3 show ?thesis by simp
qed

text \<open>
  The sample orderbook run of one account on both sides: account 11 places a white order
  of 10 USDC, then a black order of 10 USDC for the same time control.
\<close>

definition selfMatched :: "contract \<times> (address \<Rightarrow> nat)" where
  "selfMatched =
     fst (projr (placeOrder sampleHash (ledgerToken 99) (at 11 3) 1 300 (10 * USDC_UNIT)
       (fst (projr (placeOrder sampleHash (ledgerToken 99) (at 11 2) 0 300 (10 * USDC_UNIT)
          (constructed 1, funded))))))"

definition game2 :: bytes32 where
  "game2 = sampleHash [11, 11, 10 * USDC_UNIT, 1036, 3]"

lemmas book_defs = checked_sub_def placeOrder_def attemptMatch_def matchAtLevel_def matchStep_def createMatch_def
  recordBet_def matchNearestLevels_def quantizeAmount_def newOrder_def tickSize_def
  tolerancePercentage_def swapPop_def zeroLevel_def zeroOrder_def zeroPool_def zeroGame_def

lemma selfMatched_game:
  "games (fst selfMatched) game2 =
     (newGame game2 11 11 2 300 1036)\<lparr>g_status := 1, startedAt := 1036\<rparr>"
  by (simp add: selfMatched_def game2_def sampleHash_def book_defs run_defs)


lemma selfMatched_pool:
  "gameBets (fst selfMatched) game2 =
     [newBet game2 11 (10 * USDC_UNIT) 1036, newBet game2 11 (10 * USDC_UNIT) 1036]"
  "bettingPools (fst selfMatched) game2 =
     \<lparr>p_gameId = game2, p_totalAmount = 20 * USDC_UNIT, p_houseFee = 1 * USDC_UNIT,
      resolved = False, winner = 0\<rparr>"
  "pendingPayouts (fst selfMatched) = (\<lambda>_. 0)" "tokenFeeBalance (fst selfMatched) = 0"
  "resultResolved (fst selfMatched) = (\<lambda>_. False)"
  "resultSubmitted (fst selfMatched) = (\<lambda>_ _. False)"
  "snd selfMatched = funded(11 := 980 * USDC_UNIT, 99 := 20 * USDC_UNIT)"
  by (simp_all add: selfMatched_def game2_def sampleHash_def book_defs run_defs fun_eq_iff)

text \<open>The self-matched game after its only participant has reported a win of white once.\<close>

definition selfSettled :: contract where
  "selfSettled = projr (submitGameResult (at 11 4) (fst selfMatched) game2 0)"

lemma game2_pos [simp]: "0 < game2"
  by (simp add: game2_def)

lemma selfSettled_ledger:
  "pendingPayouts selfSettled = (\<lambda>_. 0)(11 := 38 * USDC_UNIT)"
  "tokenFeeBalance selfSettled = 1 * USDC_UNIT"
  "g_status (games selfSettled game2) = 2"
  "winner (bettingPools selfSettled game2) = 11"
  by (simp_all add: selfSettled_def submitGameResult_def gameExists_def onlyGamePlayer_def
      selfMatched_game selfMatched_pool require_def newGame_def newBet_def resolveBets_def finishGame_def
      creditFee_def credit_def checked_add_def checked_sub_def upt_0_2 RESULT_DRAW_def
      RESULT_WHITE_def USDC_UNIT_def TOKEN_DECIMALS_def UINT256_MAX_def at_def Let_def fun_eq_iff)

text \<open>
  The sample orderbook run of two accounts: account 11 places a white order of 10 USDC,
  account 12 a black order of 10 USDC, which is matched in full at once.
\<close>

definition crossed :: "contract \<times> (address \<Rightarrow> nat)" where
  "crossed =
     fst (projr (placeOrder sampleHash (ledgerToken 99) (at 12 3) 1 300 (10 * USDC_UNIT)
       (fst (projr (placeOrder sampleHash (ledgerToken 99) (at 11 2) 0 300 (10 * USDC_UNIT)
          (constructed 1, funded))))))"

definition orderA :: bytes32 where
  "orderA = sampleHash [11, 0, 10 * USDC_UNIT, 300, 1024, 2]"

definition orderB :: bytes32 where
  "orderB = sampleHash [12, 1, 10 * USDC_UNIT, 300, 1036, 3]"

text \<open>
  The sum of the unfilled amounts of the open and partially filled orders queued at a
  level: what the aggregate of the level is meant to equal.
\<close>

definition levelUnfilled :: "contract \<Rightarrow> nat \<times> nat \<times> nat \<Rightarrow> nat" where
  "levelUnfilled s k =
     sum_list (map (\<lambda>i. o_amount (orders s i) - o_filledAmount (orders s i))
       (filter (\<lambda>i. o_status (orders s i) = 0 \<or> o_status (orders s i) = 1)
          (orderIds (orderbookLevels s k))))"

lemma crossed_levels:
  "orderbookLevels (fst crossed) (300, 0, 10 * USDC_UNIT) =
     \<lparr>l_tickAmount = 10 * USDC_UNIT, orderIds = [], l_totalAmount = 0\<rparr>"
  "orderbookLevels (fst crossed) (300, 1, 10 * USDC_UNIT) =
     \<lparr>l_tickAmount = 10 * USDC_UNIT, orderIds = [orderB], l_totalAmount = 10 * USDC_UNIT\<rparr>"
  by (simp_all add: crossed_def orderB_def sampleHash_def book_defs run_defs)

lemma crossed_orders:
  "orders (fst crossed) orderA =
     (newOrder orderA 11 0 (10 * USDC_UNIT) 300 1024)\<lparr>o_filledAmount := 10 * USDC_UNIT, o_status := 2\<rparr>"
  "orders (fst crossed) orderB =
     (newOrder orderB 12 1 (10 * USDC_UNIT) 300 1036)\<lparr>o_filledAmount := 10 * USDC_UNIT, o_status := 2\<rparr>"
  by (simp_all add: crossed_def orderA_def orderB_def sampleHash_def book_defs run_defs)

text \<open>
  C1: the failing run. Account 11 is matched against itself for 10 USDC a side, so the
  game has two stakes of 10 USDC, a pool of 20 USDC and a fee of 1 USDC at 500 basis
  points. One report of a win of white resolves the game. The balance of the winner
  grows by 38 USDC, twice the net pool of 19 USDC, although only 20 USDC were staked; the
  fee accumulator grows by 1 USDC.
\<close>

theorem self_matched_winner_is_paid_twice:
  "gameBets (fst selfMatched) game2 =
     [newBet game2 11 (10 * USDC_UNIT) 1036, newBet game2 11 (10 * USDC_UNIT) 1036] \<and>
   p_totalAmount (bettingPools (fst selfMatched) game2) = 20 * USDC_UNIT \<and>
   p_houseFee (bettingPools (fst selfMatched) game2) = (20 * USDC_UNIT * 500) div 10000 \<and>
   houseFeePercentage (fst selfMatched) = 500 \<and>
   pendingPayouts (fst selfMatched) 11 = 0 \<and>
   submitGameResult (at 11 4) (fst selfMatched) game2 0 = Inr selfSettled \<and>
   winner (bettingPools selfSettled game2) = 11 \<and>
   pendingPayouts selfSettled 11 = 2 * (20 * USDC_UNIT - (20 * USDC_UNIT * 500) div 10000) \<and>
   tokenFeeBalance selfSettled = (20 * USDC_UNIT * 500) div 10000"
proof -
  have "submitGameResult (at 11 4) (fst selfMatched) game2 0 = Inr selfSettled"
    by (simp add: selfSettled_def submitGameResult_def gameExists_def onlyGamePlayer_def
      selfMatched_game selfMatched_pool require_def newGame_def newBet_def resolveBets_def
      finishGame_def creditFee_def credit_def checked_add_def checked_sub_def upt_0_2
      RESULT_DRAW_def RESULT_WHITE_def USDC_UNIT_def TOKEN_DECIMALS_def UINT256_MAX_def at_def
      Let_def)
  moreover have "houseFeePercentage (fst selfMatched) = 500"
    by (simp add: selfMatched_def book_defs run_defs)
  ultimately show ?thesis
    by (simp add: selfMatched_pool selfSettled_ledger USDC_UNIT_def TOKEN_DECIMALS_def)
qed

text \<open>
  C6: the failing run. After account 12's black order of 10 USDC has been matched in
  full against account 11's white order, the level of the black order still holds the
  order in its queue and still reports an aggregate of 10 USDC, while the order is
  filled: the unfilled amounts of the open and partially filled orders there sum to 0.
\<close>

theorem taker_level_total_is_stale:
  "orderIds (orderbookLevels (fst crossed) (300, 1, 10 * USDC_UNIT)) = [orderB] \<and>
   o_status (orders (fst crossed) orderB) = 2 \<and>
   o_filledAmount (orders (fst crossed) orderB) = o_amount (orders (fst crossed) orderB) \<and>
   l_totalAmount (orderbookLevels (fst crossed) (300, 1, 10 * USDC_UNIT)) = 10 * USDC_UNIT \<and>
   levelUnfilled (fst crossed) (300, 1, 10 * USDC_UNIT) = 0"
  using crossed_levels crossed_orders by (simp add: levelUnfilled_def newOrder_def)

text \<open>
  C10. Two \<^verbatim>\<open>placeOrder\<close> calls of one account, a white and a black order of 10 USDC for
  the same time control, are paired by the matching pass, whatever the hash function:
  the game created for the match is active and has that account as its white and as its
  black player. \<^verbatim>\<open>createGame\<close> never accepts the caller as the opponent.
\<close>

theorem orderbook_pairs_an_account_with_itself:
  "(\<exists>s t oid.
     bnd (placeOrder H (ledgerToken 99) (at 11 2) 0 300 (10 * USDC_UNIT) (constructed 1, funded))
       (\<lambda>r. placeOrder H (ledgerToken 99) (at 11 3) 1 300 (10 * USDC_UNIT) (fst r))
       = Inr ((s, t), oid) \<and>
     whitePlayer (games s (H [11, 11, 10 * USDC_UNIT, 1036, 3])) = 11 \<and>
     blackPlayer (games s (H [11, 11, 10 * USDC_UNIT, 1036, 3])) = 11 \<and>
     g_status (games s (H [11, 11, 10 * USDC_UNIT, 1036, 3])) = 1 \<and>
     map b_player (gameBets s (H [11, 11, 10 * USDC_UNIT, 1036, 3])) = [11, 11]) \<and>
   (\<exists>err. createGame H e s0 (msg_sender e) timeControl tier = Inl err)"
proof -
  have "\<exists>err. createGame H e s0 (msg_sender e) timeControl tier = Inl err"
    by (simp add: createGame_def require_def)
  moreover have "\<exists>s t oid.
     bnd (placeOrder H (ledgerToken 99) (at 11 2) 0 300 (10 * USDC_UNIT) (constructed 1, funded))
       (\<lambda>r. placeOrder H (ledgerToken 99) (at 11 3) 1 300 (10 * USDC_UNIT) (fst r))
       = Inr ((s, t), oid) \<and>
     whitePlayer (games s (H [11, 11, 10 * USDC_UNIT, 1036, 3])) = 11 \<and>
     blackPlayer (games s (H [11, 11, 10 * USDC_UNIT, 1036, 3])) = 11 \<and>
     g_status (games s (H [11, 11, 10 * USDC_UNIT, 1036, 3])) = 1 \<and>
     map b_player (gameBets s (H [11, 11, 10 * USDC_UNIT, 1036, 3])) = [11, 11]"
    by (simp add: book_defs run_defs)
  ultimately show ?thesis by blast
qed

theorem orderbook_pairs_an_account_with_itself_witness:
  "whitePlayer (games (fst selfMatched) game2) = 11 \<and>
   blackPlayer (games (fst selfMatched) game2) = 11 \<and>
   g_status (games (fst selfMatched) game2) = 1 \<and>
   createGame sampleHash (at 11 2) (constructed 1) 11 300 2
     = Inl (Require ''Cannot play against yourself'')"
proof -
  from orderbook_pairs_an_account_with_itself [of sampleHash "at 11 2" "constructed 1" 300 2]
  have "\<exists>err. createGame sampleHash (at 11 2) (constructed 1) 11 300 2 = Inl err"
    by (simp add: at_def)
  then show ?thesis
    by (simp add: selfMatched_game newGame_def createGame_def at_def constructed_def)
qed

definition blockSettled :: contract where
  "blockSettled =
     projr (submitGameResult (at 12 1)
       (projr (submitGameResult (at 11 1)
          (fst (projr (placeBet (ledgerToken 99) (at 12 1) game1 (50 * USDC_UNIT)
             (projr (placeBet (ledgerToken 99) (at 11 1) game1 (50 * USDC_UNIT)
                (fst (projr (createGame sampleHash (at 11 1) (constructed 1) 12 300 2)),
                 funded))))))
          game1 0))
       game1 0)"

definition recreated :: contract where
  "recreated = fst (projr (createGame sampleHash (at 11 1) blockSettled 12 300 2))"

definition unwound :: contract where
  "unwound = projr (pauseGame (at 1 2) recreated game1)"

lemma blockSettled_facts:
  "resolved (bettingPools blockSettled game1)"
  "pendingPayouts blockSettled = (\<lambda>_. 0)(11 := 95 * USDC_UNIT)"
  "tokenFeeBalance blockSettled = 5 * USDC_UNIT"
  "g_status (games blockSettled game1) = 2"
  "resultResolved blockSettled game1"
  "\<not> paused blockSettled"
  "gameBets blockSettled game1 =
     [(newBet game1 11 (50 * USDC_UNIT) 1012)\<lparr>b_status := 0, b_payout := 95 * USDC_UNIT, b_resolvedAt := 1012\<rparr>,
      (newBet game1 12 (50 * USDC_UNIT) 1012)\<lparr>b_status := 1, b_payout := 0, b_resolvedAt := 1012\<rparr>]"
  "owner blockSettled = 1"
  by (simp_all add: blockSettled_def game1_def run_defs settle_defs fun_eq_iff)

lemma recreated_eq:
  "createGame sampleHash (at 11 1) blockSettled 12 300 2 =
     Inr (emit (GameCreated game1 11 12 300)
           (blockSettled\<lparr>games := (games blockSettled)(game1 := newGame game1 11 12 2 300 1012),
                          bettingPools := (bettingPools blockSettled)(game1 := newPool game1)\<rparr>), game1)"
  using blockSettled_facts(6)
  by (simp add: createGame_def at_def game1_def Let_def)


lemma recreated_facts:
  "\<not> resolved (bettingPools recreated game1)"
  "g_status (games recreated game1) = 0" "g_id (games recreated game1) = game1"
  "gameBets recreated game1 = gameBets blockSettled game1"
  "pendingPayouts recreated = pendingPayouts blockSettled"
  "tokenFeeBalance recreated = tokenFeeBalance blockSettled"
  "owner recreated = 1"
  using recreated_eq
  by (simp_all add: recreated_def newPool_def newGame_def blockSettled_facts)

lemma unwound_facts:
  "pauseGame (at 1 2) recreated game1 = Inr unwound"
  "pendingPayouts unwound 11 = 145 * USDC_UNIT" "pendingPayouts unwound 12 = 50 * USDC_UNIT"
  "tokenFeeBalance unwound = 5 * USDC_UNIT"
proof -
  let ?b1 = "(newBet game1 11 (50 * USDC_UNIT) 1012)\<lparr>b_status := 0, b_payout := 95 * USDC_UNIT, b_resolvedAt := 1012\<rparr>"
  let ?b2 = "(newBet game1 12 (50 * USDC_UNIT) 1012)\<lparr>b_status := 1, b_payout := 0, b_resolvedAt := 1012\<rparr>"
  let ?s1 = "upd_game game1 (\<lambda>g. g\<lparr>g_status := 2\<rparr>) recreated"
  have b: "gameBets ?s1 game1 = [?b1, ?b2]"
    by (simp add: recreated_facts blockSettled_facts)
  have u: "\<not> resolved (bettingPools ?s1 game1)"
    by (simp add: recreated_facts)
  have o1: "pendingPayouts ?s1 (b_player ?b1) + b_amount ?b1 + b_amount ?b2 \<le> UINT256_MAX"
    by (simp add: recreated_facts blockSettled_facts newBet_def USDC_UNIT_def TOKEN_DECIMALS_def
        UINT256_MAX_def)
  have o2: "pendingPayouts ?s1 (b_player ?b2) + b_amount ?b1 + b_amount ?b2 \<le> UINT256_MAX"
    by (simp add: recreated_facts blockSettled_facts newBet_def USDC_UNIT_def TOKEN_DECIMALS_def
        UINT256_MAX_def)
  from resolveBets_draw [OF b u o1 o2, of "at 1 2"]
  obtain s2 where r: "resolveBets (at 1 2) ?s1 game1 RESULT_DRAW = Inr s2"
    and p: "\<forall>x. pendingPayouts s2 x = pendingPayouts ?s1 x
                  + (if x = b_player ?b1 then b_amount ?b1 else 0)
                  + (if x = b_player ?b2 then b_amount ?b2 else 0)"
    and t: "tokenFeeBalance s2 = tokenFeeBalance ?s1"
    by blast
  have gp: "0 < game1"
    by (simp add: game1_def)
  have pg: "pauseGame (at 1 2) recreated game1 =
      Inr (emit (GameFinished game1 RESULT_DRAW)
            ((upd_game game1 (\<lambda>g. g\<lparr>g_result := RESULT_DRAW, finishedAt := block_timestamp (at 1 2)\<rparr>) s2)
               \<lparr>resultResolved := (resultResolved s2)(game1 := True),
                resultFinal := (resultFinal s2)(game1 := RESULT_DRAW)\<rparr>))"
    using r b gp
    by (simp add: pauseGame_def onlyOwner_def gameExists_def recreated_facts at_def Let_def)
  then show "pauseGame (at 1 2) recreated game1 = Inr unwound"
    by (simp add: unwound_def)
  from pg p t show "pendingPayouts unwound 11 = 145 * USDC_UNIT"
    "pendingPayouts unwound 12 = 50 * USDC_UNIT" "tokenFeeBalance unwound = 5 * USDC_UNIT"
    by (simp_all add: unwound_def recreated_facts blockSettled_facts newBet_def USDC_UNIT_def)
qed

text \<open>
  C2: the failing run. The game is resolved (flag set, 95 USDC credited to the winner, 5
  USDC of fee). A second \<^verbatim>\<open>createGame\<close> of the same caller against the same opponent
  in the same block yields the same identifier and overwrites the pool: the flag is back
  to false while the two bets are still stored. The unwind of the owner is then accepted
  and credits both stakes again: 195 USDC of payouts and 5 USDC of fee for 100 USDC
  staked.
\<close>

theorem resolved_flag_is_reset_by_recreation:
  "resolved (bettingPools blockSettled game1) \<and>
   pendingPayouts blockSettled 11 = 95 * USDC_UNIT \<and> pendingPayouts blockSettled 12 = 0 \<and>
   createGame sampleHash (at 11 1) blockSettled 12 300 2 = Inr (recreated, game1) \<and>
   \<not> resolved (bettingPools recreated game1) \<and>
   map b_amount (gameBets recreated game1) = [50 * USDC_UNIT, 50 * USDC_UNIT] \<and>
   pauseGame (at 1 2) recreated game1 = Inr unwound \<and>
   pendingPayouts unwound 11 = 145 * USDC_UNIT \<and> pendingPayouts unwound 12 = 50 * USDC_UNIT \<and>
   tokenFeeBalance unwound = 5 * USDC_UNIT"
  using blockSettled_facts recreated_facts unwound_facts recreated_eq
  by (simp add: recreated_def newBet_def)

end
